theory Spec2Isabelle
  imports Complex_Main
begin

section \<open>The training orchestrator of \<^verbatim>\<open>train.py\<close>\<close>

text \<open>
  \<^verbatim>\<open>train.py\<close> drives epochs and batches around collaborators that live outside
  the file: the capsule network (\<^verbatim>\<open>DeepCapsModel\<close>), the optimiser, the
  helpers (\<^verbatim>\<open>accuracy_calc\<close>, \<^verbatim>\<open>onehot_encode\<close>, \<^verbatim>\<open>get_learning_rate\<close>),
  the data loaders, the F1 metric, the plot functions and the file system.
  They are parameters of the model below (the record \<open>env\<close>); the function
  \<^verbatim>\<open>train\<close> itself is translated statement by statement.

  Conventions.
  \<^item> A tensor is the list of its slices along the batch dimension, so
    \<^verbatim>\<open>torch.concat((x, y))\<close> is \<open>x @ y\<close>. Image-like slices have the type
    \<open>'a\<close>; labels and predicted indices are lists of class indices.
  \<^item> Python floats are read as real numbers (rounding is not modelled); a
    division is written with its \<^verbatim>\<open>ZeroDivisionError\<close> branch.
  \<^item> What the function does to the outside (prints, plots, saves) is
    appended to a trace of events, in program order.
  \<^item> The forward pass and the loss read the parameters, the train/eval
    mode and their inputs and write nothing; parameters change in the
    optimiser step only.
  \<^item> The F1 metric may refuse its arguments: its call returns an error or a
    value, and an error ends the run at line 126. The other collaborators
    are taken to return; a failure inside one of them is outside the model,
    and nothing below says which outcomes a run can have.
\<close>

subsection \<open>Data\<close>

datatype py_error = TypeError | UnboundLocalError | ZeroDivisionError | ValueError

datatype outcome = Returned | SystemExit "int option" | Raised py_error

text \<open>The exit status of the interpreter: \<^verbatim>\<open>sys.exit()\<close> with no argument
  (\<open>SystemExit None\<close>) is status 0, an uncaught exception is status 1.\<close>

fun exit_status :: "outcome \<Rightarrow> int" where
  "exit_status Returned = 0"
| "exit_status (SystemExit None) = 0"
| "exit_status (SystemExit (Some n)) = n"
| "exit_status (Raised e) = 1"

text \<open>One item of a loader: \<^verbatim>\<open>(train_data, optic_data, labels)\<close>.\<close>

record 'a batch =
  b_data :: "'a list"
  b_optic :: "'a list"
  b_labels :: "nat list"

text \<open>The eight results of \<^verbatim>\<open>deepcaps(data, optic_data, onehot_label)\<close>.\<close>

record 'a fwd_out =
  outputs :: "'a list"
  pose :: "'a list"
  reconstructed :: "'a list"
  indices :: "nat list"
  outputs1 :: "'a list"
  pose1 :: "'a list"
  reconstructed1 :: "'a list"
  indices1 :: "nat list"

text \<open>The locals bound in a loop body and read after the loops.\<close>

record 'a batch_vars =
  data_con :: "'a list"
  labels_con :: "nat list"
  recon :: "'a list"
  ind :: "nat list"

datatype ('p, 'a) event =
    Print_model 'p
  | Print_checkpoint_loaded
  | Print_exception string
  | Print_epoch_began nat real
  | Print_training nat real real
  | Print_testing nat real real
  | F1Score_init nat
  | Print_f1 real
  | Plot_loss_acc string nat "real list" "real list" "real list" "real list"
  | Plot_reconstruction string nat "'a list" "'a list" "nat list" "nat list"
  | Torch_save 'p string
  | Print_saved nat

text \<open>The collaborators. \<open>'p\<close> is the parameter state of the network (what
  \<^verbatim>\<open>state_dict()\<close> returns), \<open>'o\<close> the optimiser with the gradients it
  steps on, \<open>'l\<close> a loss tensor. \<open>f1score nc preds target\<close> is the call
  \<^verbatim>\<open>F1Score(num_classes=nc, average='samples')(preds, target)\<close>: the error
  it raises, or its value.\<close>

record ('p, 'o, 'a, 'l) env =
  init_model :: "nat \<Rightarrow> nat \<Rightarrow> 'p"
  path_exists :: "string \<Rightarrow> bool"
  load_state_dict :: "string \<Rightarrow> 'p \<Rightarrow> string + 'p"
  adam :: "'p \<Rightarrow> real \<Rightarrow> 'o"
  get_learning_rate :: "'o \<Rightarrow> real"
  train_loader :: "nat \<Rightarrow> 'a batch list"
  test_loader :: "nat \<Rightarrow> 'a batch list"
  onehot_encode :: "nat list \<Rightarrow> nat \<Rightarrow> 'a list"
  forward :: "'p \<Rightarrow> bool \<Rightarrow> 'a list \<Rightarrow> 'a list \<Rightarrow> 'a list \<Rightarrow> 'a fwd_out"
  loss_fn :: "'p \<Rightarrow> 'a list \<Rightarrow> 'a list \<Rightarrow> 'a list \<Rightarrow> 'a list \<Rightarrow> real \<Rightarrow> real \<Rightarrow> real \<Rightarrow> 'l"
  item :: "'l \<Rightarrow> real"
  zero_grad :: "'o \<Rightarrow> 'o"
  backward :: "'l \<Rightarrow> 'o \<Rightarrow> 'o"
  opt_step :: "'p \<Rightarrow> 'o \<Rightarrow> 'p \<times> 'o"
  accuracy_calc :: "nat list \<Rightarrow> nat list \<Rightarrow> real"
  f1score :: "nat \<Rightarrow> nat list \<Rightarrow> nat list \<Rightarrow> py_error + real"

text \<open>The arguments of \<^verbatim>\<open>train\<close> (\<^verbatim>\<open>device\<close>, \<^verbatim>\<open>decay_step\<close> and
  \<^verbatim>\<open>gamma\<close> have no effect on the control flow and are left out;
  \<open>lambda_p\<close> is \<^verbatim>\<open>lambda_\<close>).\<close>

record hyper =
  img_size :: nat
  learning_rate :: real
  num_epochs :: nat
  num_classes :: nat
  lambda_p :: real
  m_plus :: real
  m_minus :: real
  checkpoint_folder :: "string option"
  checkpoint_name :: "string option"
  load_checkpoint :: bool
  graphs_folder :: "string option"

text \<open>The state of a run: the network, its mode, the optimiser, and the
  locals of \<^verbatim>\<open>train\<close> that live across epochs.\<close>

record ('p, 'o, 'a) state =
  deepcaps :: 'p
  training :: bool
  optimizer :: 'o
  best_accuracy :: real
  training_loss_list :: "real list"
  training_acc_list :: "real list"
  testing_loss_list :: "real list"
  testing_acc_list :: "real list"
  vars :: "'a batch_vars option"
  trace :: "('p, 'a) event list"

text \<open>The accumulators of one pass over a loader.\<close>

record acc =
  batch_loss :: real
  batch_accuracy :: real
  batch_idx :: nat

definition acc0 :: acc where
  "acc0 = \<lparr>batch_loss = 0, batch_accuracy = 0, batch_idx = 0\<rparr>"

definition py_div :: "real \<Rightarrow> nat \<Rightarrow> py_error + real" where
  "py_div x n = (if n = 0 then Inl ZeroDivisionError else Inr (x / real n))"

definition emit :: "('p, 'a) event list \<Rightarrow> ('p, 'o, 'a) state \<Rightarrow> ('p, 'o, 'a) state" where
  "emit evs s = s\<lparr>trace := trace s @ evs\<rparr>"

subsection \<open>The two loop bodies\<close>

text \<open>Lines 69 to 87: one training batch.\<close>

definition train_batch ::
  "('p, 'o, 'a, 'l) env \<Rightarrow> hyper \<Rightarrow> nat \<Rightarrow> 'a batch \<Rightarrow>
   ('p, 'o, 'a) state \<times> acc \<Rightarrow> ('p, 'o, 'a) state \<times> acc" where
  "train_batch env h i b sa =
    (let s = fst sa; a = snd sa;
         dc = b_data b @ b_optic b;
         lc = b_labels b @ b_labels b;
         onehot_label = onehot_encode env (b_labels b) (num_classes h);
         onehot_label_con = onehot_encode env lc (num_classes h);
         o1 = zero_grad env (optimizer s);
         fo = forward env (deepcaps s) (training s) (b_data b) (b_optic b) onehot_label;
         out = outputs fo @ outputs1 fo;
         rc = reconstructed fo @ reconstructed1 fo;
         ix = indices fo @ indices1 fo;
         loss = loss_fn env (deepcaps s) out rc dc onehot_label_con
                  (lambda_p h) (m_plus h) (m_minus h);
         o2 = backward env loss o1;
         po = opt_step env (deepcaps s) o2
     in (s\<lparr>deepcaps := fst po, optimizer := snd po,
            vars := Some \<lparr>data_con = dc, labels_con = lc, recon = rc, ind = ix\<rparr>\<rparr>,
         \<lparr>batch_loss = batch_loss a + item env loss,
          batch_accuracy = batch_accuracy a + accuracy_calc env ix lc,
          batch_idx = i\<rparr>))"

text \<open>Lines 105 to 119: one testing batch.\<close>

definition test_batch ::
  "('p, 'o, 'a, 'l) env \<Rightarrow> hyper \<Rightarrow> nat \<Rightarrow> 'a batch \<Rightarrow>
   ('p, 'o, 'a) state \<times> acc \<Rightarrow> ('p, 'o, 'a) state \<times> acc" where
  "test_batch env h i b sa =
    (let s = fst sa; a = snd sa;
         dc = b_data b @ b_optic b;
         lc = b_labels b @ b_labels b;
         onehot_label = onehot_encode env (b_labels b) (num_classes h);
         onehot_label_con = onehot_encode env lc (num_classes h);
         fo = forward env (deepcaps s) (training s) (b_data b) (b_optic b) onehot_label;
         out = outputs fo @ outputs1 fo;
         rc = reconstructed fo @ reconstructed1 fo;
         ix = indices fo @ indices1 fo;
         loss = loss_fn env (deepcaps s) out rc dc onehot_label_con
                  (lambda_p h) (m_plus h) (m_minus h)
     in (s\<lparr>vars := Some \<lparr>data_con = dc, labels_con = lc, recon = rc, ind = ix\<rparr>\<rparr>,
         \<lparr>batch_loss = batch_loss a + item env loss,
          batch_accuracy = batch_accuracy a + accuracy_calc env ix lc,
          batch_idx = i\<rparr>))"

text \<open>\<^verbatim>\<open>for batch_idx, (...) in enumerate(loader)\<close>: the index starts at the
  second argument and \<^verbatim>\<open>batch_idx\<close> is assigned at each item, so it
  keeps its value from before the loop when the loader yields nothing.\<close>

fun train_loop ::
  "('p, 'o, 'a, 'l) env \<Rightarrow> hyper \<Rightarrow> nat \<Rightarrow> 'a batch list \<Rightarrow>
   ('p, 'o, 'a) state \<times> acc \<Rightarrow> ('p, 'o, 'a) state \<times> acc" where
  "train_loop env h i [] sa = sa"
| "train_loop env h i (b # bs) sa = train_loop env h (Suc i) bs (train_batch env h i b sa)"

fun test_loop ::
  "('p, 'o, 'a, 'l) env \<Rightarrow> hyper \<Rightarrow> nat \<Rightarrow> 'a batch list \<Rightarrow>
   ('p, 'o, 'a) state \<times> acc \<Rightarrow> ('p, 'o, 'a) state \<times> acc" where
  "test_loop env h i [] sa = sa"
| "test_loop env h i (b # bs) sa = test_loop env h (Suc i) bs (test_batch env h i b sa)"

subsection \<open>Epoch finalisation\<close>

text \<open>Lines 90 and 91.\<close>

definition train_averages :: "acc \<Rightarrow> py_error + real \<times> real" where
  "train_averages a =
    (case py_div (batch_accuracy a) (batch_idx a + 1) of
       Inl e \<Rightarrow> Inl e
     | Inr epoch_accuracy \<Rightarrow>
        (case py_div (batch_loss a) (batch_idx a + 1) of
           Inl e \<Rightarrow> Inl e
         | Inr avg_batch_loss \<Rightarrow> Inr (epoch_accuracy, avg_batch_loss)))"

text \<open>Lines 122 and 123.\<close>

definition test_averages :: "acc \<Rightarrow> py_error + real \<times> real" where
  "test_averages a =
    (case py_div (batch_accuracy a) (batch_idx a + 1) of
       Inl e \<Rightarrow> Inl e
     | Inr epoch_accuracy \<Rightarrow>
        (case py_div (batch_loss a) (batch_idx a + 1) of
           Inl e \<Rightarrow> Inl e
         | Inr q \<Rightarrow>
            (case py_div q 2 of
               Inl e \<Rightarrow> Inl e
             | Inr avg_batch_loss \<Rightarrow> Inr (epoch_accuracy, avg_batch_loss))))"

text \<open>Lines 60 to 95: the training half of an epoch (the pass over the
  loader, then the averages). A failure carries the trace up to the raise.\<close>

definition train_pass ::
  "('p, 'o, 'a, 'l) env \<Rightarrow> hyper \<Rightarrow> nat \<Rightarrow> ('p, 'o, 'a) state \<Rightarrow>
   ('p, 'o, 'a) state \<times> acc" where
  "train_pass env h e s =
    (let s0 = emit [Print_epoch_began e (get_learning_rate env (optimizer s))] s
     in train_loop env h 0 (train_loader env e) (s0\<lparr>training := True\<rparr>, acc0))"

definition train_phase ::
  "('p, 'o, 'a, 'l) env \<Rightarrow> hyper \<Rightarrow> nat \<Rightarrow> ('p, 'o, 'a) state \<Rightarrow>
   (py_error \<times> ('p, 'a) event list) + ('p, 'o, 'a) state" where
  "train_phase env h e s =
    (let sa = train_pass env h e s;
         s1 = fst sa
     in case train_averages (snd sa) of
          Inl err \<Rightarrow> Inl (err, trace s1)
        | Inr (epoch_accuracy, avg_batch_loss) \<Rightarrow>
            Inr ((emit [Print_training e epoch_accuracy avg_batch_loss] s1)
                  \<lparr>training_loss_list := training_loss_list s1 @ [avg_batch_loss],
                   training_acc_list := training_acc_list s1 @ [epoch_accuracy]\<rparr>))"

text \<open>Lines 132 to 137.\<close>

definition plots ::
  "hyper \<Rightarrow> nat \<Rightarrow> ('p, 'o, 'a) state \<Rightarrow> 'a batch_vars \<Rightarrow> ('p, 'a) event list" where
  "plots h e s v =
    (case graphs_folder h of
       None \<Rightarrow> []
     | Some g \<Rightarrow>
        if e mod 5 = 0
        then [Plot_loss_acc g e (training_acc_list s) (training_loss_list s)
                (testing_acc_list s) (testing_loss_list s),
              Plot_reconstruction g e (data_con v) (recon v) (ind v) (labels_con v)]
        else [])"

text \<open>Lines 141 to 144. Nothing assigns \<^verbatim>\<open>best_accuracy\<close>.\<close>

definition saves ::
  "string \<Rightarrow> nat \<Rightarrow> real \<Rightarrow> ('p, 'o, 'a) state \<Rightarrow> ('p, 'a) event list" where
  "saves checkpoint_path e epoch_accuracy s =
    (if best_accuracy s < epoch_accuracy
     then [Torch_save (deepcaps s) checkpoint_path, Print_saved e]
     else [])"

text \<open>Lines 99 to 144: the testing half of an epoch. Line 125 builds the
  metric for 7 classes; line 126 reads \<^verbatim>\<open>ind\<close> and \<^verbatim>\<open>labels_con\<close>
  (unbound when no batch has been seen), calls the metric, which may raise,
  and prints its value.\<close>

definition test_pass ::
  "('p, 'o, 'a, 'l) env \<Rightarrow> hyper \<Rightarrow> nat \<Rightarrow> ('p, 'o, 'a) state \<Rightarrow>
   ('p, 'o, 'a) state \<times> acc" where
  "test_pass env h e s = test_loop env h 0 (test_loader env e) (s\<lparr>training := False\<rparr>, acc0)"

definition test_phase ::
  "('p, 'o, 'a, 'l) env \<Rightarrow> hyper \<Rightarrow> string \<Rightarrow> nat \<Rightarrow> ('p, 'o, 'a) state \<Rightarrow>
   (py_error \<times> ('p, 'a) event list) + ('p, 'o, 'a) state" where
  "test_phase env h checkpoint_path e s =
    (let sa = test_pass env h e s;
         s1 = fst sa
     in case test_averages (snd sa) of
          Inl err \<Rightarrow> Inl (err, trace s1)
        | Inr (epoch_accuracy, avg_batch_loss) \<Rightarrow>
           (let s2 = emit [Print_testing e epoch_accuracy avg_batch_loss, F1Score_init 7] s1
            in case vars s2 of
                 None \<Rightarrow> Inl (UnboundLocalError, trace s2)
               | Some v \<Rightarrow>
                  (case f1score env 7 (ind v) (labels_con v) of
                     Inl err \<Rightarrow> Inl (err, trace s2)
                   | Inr f1 \<Rightarrow>
                      (let s3 = (emit [Print_f1 f1] s2)
                                  \<lparr>testing_loss_list := testing_loss_list s2 @ [avg_batch_loss],
                                   testing_acc_list := testing_acc_list s2 @ [epoch_accuracy]\<rparr>;
                           s4 = emit (plots h e s3 v) s3
                       in Inr (emit (saves checkpoint_path e epoch_accuracy s4) s4)))))"

definition epoch ::
  "('p, 'o, 'a, 'l) env \<Rightarrow> hyper \<Rightarrow> string \<Rightarrow> nat \<Rightarrow> ('p, 'o, 'a) state \<Rightarrow>
   (py_error \<times> ('p, 'a) event list) + ('p, 'o, 'a) state" where
  "epoch env h checkpoint_path e s =
    (case train_phase env h e s of
       Inl x \<Rightarrow> Inl x
     | Inr s1 \<Rightarrow> test_phase env h checkpoint_path e s1)"

text \<open>\<^verbatim>\<open>for epoch_idx in range(num_epochs)\<close>, over the list of indices.\<close>

fun epochs ::
  "('p, 'o, 'a, 'l) env \<Rightarrow> hyper \<Rightarrow> string \<Rightarrow> nat list \<Rightarrow> ('p, 'o, 'a) state \<Rightarrow>
   (py_error \<times> ('p, 'a) event list) + ('p, 'o, 'a) state" where
  "epochs env h checkpoint_path [] s = Inr s"
| "epochs env h checkpoint_path (e # es) s =
    (case epoch env h checkpoint_path e s of
       Inl x \<Rightarrow> Inl x
     | Inr s1 \<Rightarrow> epochs env h checkpoint_path es s1)"

subsection \<open>The function \<^verbatim>\<open>train\<close>\<close>

record ('p, 'a) result =
  outcome :: outcome
  log :: "('p, 'a) event list"

text \<open>Lines 46 to 54: the state the epoch loop starts from.\<close>

definition init_state ::
  "('p, 'o, 'a, 'l) env \<Rightarrow> hyper \<Rightarrow> 'p \<Rightarrow> ('p, 'a) event list \<Rightarrow> ('p, 'o, 'a) state" where
  "init_state env h p tr =
    \<lparr>deepcaps = p, training = True, optimizer = adam env p (learning_rate h),
     best_accuracy = 0,
     training_loss_list = [], training_acc_list = [],
     testing_loss_list = [], testing_acc_list = [],
     vars = None, trace = tr\<rparr>"

definition run_from ::
  "('p, 'o, 'a, 'l) env \<Rightarrow> hyper \<Rightarrow> string \<Rightarrow> 'p \<Rightarrow> ('p, 'a) event list \<Rightarrow> ('p, 'a) result" where
  "run_from env h checkpoint_path p tr =
    (case epochs env h checkpoint_path [0..<num_epochs h] (init_state env h p tr) of
       Inl (err, tr') \<Rightarrow> \<lparr>outcome = Raised err, log = tr'\<rparr>
     | Inr s \<Rightarrow> \<lparr>outcome = Returned, log = trace s\<rparr>)"

text \<open>Lines 33 to 44, then the rest. \<^verbatim>\<open>checkpoint_folder + checkpoint_name\<close>
  raises \<^verbatim>\<open>TypeError\<close> when either is \<^verbatim>\<open>None\<close>.\<close>

definition train :: "('p, 'o, 'a, 'l) env \<Rightarrow> hyper \<Rightarrow> ('p, 'a) result" where
  "train env h =
    (case checkpoint_folder h of
       None \<Rightarrow> \<lparr>outcome = Raised TypeError, log = []\<rparr>
     | Some folder \<Rightarrow>
        (case checkpoint_name h of
           None \<Rightarrow> \<lparr>outcome = Raised TypeError, log = []\<rparr>
         | Some name \<Rightarrow>
            (let checkpoint_path = folder @ name;
                 p = init_model env (num_classes h) (img_size h);
                 tr = [Print_model p]
             in if load_checkpoint h \<and> checkpoint_name h \<noteq> None \<and> path_exists env checkpoint_path
                then (case load_state_dict env checkpoint_path p of
                        Inl ex \<Rightarrow> \<lparr>outcome = SystemExit None, log = tr @ [Print_exception ex]\<rparr>
                      | Inr p' \<Rightarrow> run_from env h checkpoint_path p' (tr @ [Print_checkpoint_loaded]))
                else run_from env h checkpoint_path p tr)))"

text \<open>What the file at a path holds after a trace: the last save to it.\<close>

fun persisted :: "string \<Rightarrow> ('p, 'a) event list \<Rightarrow> 'p option" where
  "persisted path [] = None"
| "persisted path (Torch_save p q # evs) =
    (case persisted path evs of
       Some p' \<Rightarrow> Some p'
     | None \<Rightarrow> if q = path then Some p else None)"
| "persisted path (ev # evs) = persisted path evs"

subsection \<open>Reading a trace\<close>

fun f1_inits :: "('p, 'a) event list \<Rightarrow> nat list" where
  "f1_inits [] = []"
| "f1_inits (F1Score_init n # evs) = n # f1_inits evs"
| "f1_inits (ev # evs) = f1_inits evs"

fun f1_prints :: "('p, 'a) event list \<Rightarrow> real list" where
  "f1_prints [] = []"
| "f1_prints (Print_f1 x # evs) = x # f1_prints evs"
| "f1_prints (ev # evs) = f1_prints evs"

fun is_plot :: "('p, 'a) event \<Rightarrow> bool" where
  "is_plot (Plot_loss_acc g e tacc tloss vacc vloss) = True"
| "is_plot (Plot_reconstruction g e orig rc ix lc) = True"
| "is_plot ev = False"

fun is_save :: "('p, 'a) event \<Rightarrow> bool" where
  "is_save (Torch_save p q) = True"
| "is_save ev = False"

fun testing_accuracies :: "('p, 'a) event list \<Rightarrow> real list" where
  "testing_accuracies [] = []"
| "testing_accuracies (Print_testing e x l # evs) = x # testing_accuracies evs"
| "testing_accuracies (ev # evs) = testing_accuracies evs"

text \<open>Every F1 metric built in a trace was built for 7 classes.\<close>

definition f1_seven :: "('p, 'a) event list \<Rightarrow> bool" where
  "f1_seven tr = (f1_inits tr = replicate (length (f1_inits tr)) 7)"

text \<open>The values one batch produces under parameters \<open>p\<close> in mode \<open>m\<close>:
  the expressions of lines 70 to 81 (106 to 116), named for the statements
  below.\<close>

definition forward_of ::
  "('p, 'o, 'a, 'l) env \<Rightarrow> hyper \<Rightarrow> 'p \<Rightarrow> bool \<Rightarrow> 'a batch \<Rightarrow> 'a fwd_out" where
  "forward_of env h p m b =
    forward env p m (b_data b) (b_optic b) (onehot_encode env (b_labels b) (num_classes h))"

definition vars_of ::
  "('p, 'o, 'a, 'l) env \<Rightarrow> hyper \<Rightarrow> 'p \<Rightarrow> bool \<Rightarrow> 'a batch \<Rightarrow> 'a batch_vars" where
  "vars_of env h p m b =
    \<lparr>data_con = b_data b @ b_optic b,
     labels_con = b_labels b @ b_labels b,
     recon = reconstructed (forward_of env h p m b) @ reconstructed1 (forward_of env h p m b),
     ind = indices (forward_of env h p m b) @ indices1 (forward_of env h p m b)\<rparr>"

definition loss_of ::
  "('p, 'o, 'a, 'l) env \<Rightarrow> hyper \<Rightarrow> 'p \<Rightarrow> bool \<Rightarrow> 'a batch \<Rightarrow> 'l" where
  "loss_of env h p m b =
    loss_fn env p (outputs (forward_of env h p m b) @ outputs1 (forward_of env h p m b))
      (recon (vars_of env h p m b)) (data_con (vars_of env h p m b))
      (onehot_encode env (labels_con (vars_of env h p m b)) (num_classes h))
      (lambda_p h) (m_plus h) (m_minus h)"

definition accuracy_of ::
  "('p, 'o, 'a, 'l) env \<Rightarrow> hyper \<Rightarrow> 'p \<Rightarrow> bool \<Rightarrow> 'a batch \<Rightarrow> real" where
  "accuracy_of env h p m b =
    accuracy_calc env (ind (vars_of env h p m b)) (labels_con (vars_of env h p m b))"

subsection \<open>A small concrete instance\<close>

text \<open>A two-branch toy network whose parameter state counts the optimiser
  steps taken. Its first branch predicts the label; its second branch does
  so after exactly one step and is off by one otherwise. Accuracy is the
  fraction of matching positions. The metric raises \<^verbatim>\<open>ValueError\<close> on a
  prediction or label that is not below its class count, as the torchmetrics
  input check does, and otherwise returns the class count times the
  accuracy.\<close>

definition toy_accuracy :: "nat list \<Rightarrow> nat list \<Rightarrow> real" where
  "toy_accuracy preds ls =
    real (length (filter (\<lambda>xy. fst xy = snd xy) (zip preds ls))) / real (length ls)"

definition toy_f1 :: "nat \<Rightarrow> nat list \<Rightarrow> nat list \<Rightarrow> py_error + real" where
  "toy_f1 nc preds ls =
    (if list_ex (\<lambda>x. nc \<le> x) (preds @ ls) then Inl ValueError
     else Inr (real nc * toy_accuracy preds ls))"

definition toy_forward :: "nat \<Rightarrow> bool \<Rightarrow> nat list \<Rightarrow> nat list \<Rightarrow> nat list \<Rightarrow> nat fwd_out" where
  "toy_forward p m d od oh =
    \<lparr>outputs = d, pose = [], reconstructed = d, indices = oh,
     outputs1 = od, pose1 = [], reconstructed1 = od,
     indices1 = (if p = 1 then oh else map Suc oh)\<rparr>"

definition toy_env :: "(nat, nat, nat, real) env" where
  "toy_env =
    \<lparr>init_model = (\<lambda>nc sz. 0),
     path_exists = (\<lambda>path. True),
     load_state_dict = (\<lambda>path p. Inl ''size mismatch''),
     adam = (\<lambda>p lr. 0),
     get_learning_rate = (\<lambda>opt. 1 / 1000),
     train_loader = (\<lambda>e. [\<lparr>b_data = [1], b_optic = [2], b_labels = [0]\<rparr>]),
     test_loader = (\<lambda>e. [\<lparr>b_data = [3], b_optic = [4], b_labels = [1]\<rparr>,
                        \<lparr>b_data = [5], b_optic = [6], b_labels = [2]\<rparr>]),
     onehot_encode = (\<lambda>ls nc. ls),
     forward = toy_forward,
     loss_fn = (\<lambda>p out rc dc oh l mp mm. real (length dc)),
     item = (\<lambda>l. l),
     zero_grad = (\<lambda>opt. opt),
     backward = (\<lambda>l opt. opt),
     opt_step = (\<lambda>p opt. (Suc p, Suc opt)),
     accuracy_calc = toy_accuracy,
     f1score = toy_f1\<rparr>"

definition toy_hyper :: hyper where
  "toy_hyper =
    \<lparr>img_size = 28, learning_rate = 1 / 1000, num_epochs = 3, num_classes = 3,
     lambda_p = 1 / 2, m_plus = 9 / 10, m_minus = 1 / 10,
     checkpoint_folder = Some ''ckpt/'', checkpoint_name = Some ''best.pth'',
     load_checkpoint = False, graphs_folder = Some ''graphs/''\<rparr>"

definition toy_state :: "(nat, nat, nat) state" where
  "toy_state = init_state toy_env toy_hyper 0 []"

text \<open>Variants of the instance: a training loader, or a test loader, that
  yields nothing; one epoch only; and a run asked to restore a checkpoint
  (the instance's \<open>load_state_dict\<close> always raises).\<close>

definition no_train_env :: "(nat, nat, nat, real) env" where
  "no_train_env = toy_env\<lparr>train_loader := (\<lambda>e. [])\<rparr>"

definition no_test_env :: "(nat, nat, nat, real) env" where
  "no_test_env = toy_env\<lparr>test_loader := (\<lambda>e. [])\<rparr>"

definition one_epoch :: hyper where
  "one_epoch = toy_hyper\<lparr>num_epochs := 1\<rparr>"

definition load_hyper :: hyper where
  "load_hyper = toy_hyper\<lparr>load_checkpoint := True\<rparr>"

text \<open>A data set of 10 classes: the last testing batch carries the label 8,
  and \<^verbatim>\<open>train\<close> is called with \<^verbatim>\<open>num_classes = 10\<close>.\<close>

definition wide_env :: "(nat, nat, nat, real) env" where
  "wide_env = toy_env\<lparr>test_loader :=
     (\<lambda>e. [\<lparr>b_data = [3], b_optic = [4], b_labels = [1]\<rparr>,
           \<lparr>b_data = [5], b_optic = [6], b_labels = [8]\<rparr>])\<rparr>"

definition wide_hyper :: hyper where
  "wide_hyper = toy_hyper\<lparr>num_epochs := 1, num_classes := 10\<rparr>"

section \<open>Properties\<close>

subsection \<open>The averages and the loops\<close>

lemma py_div_Suc: "py_div x (Suc n) = Inr (x / real (Suc n))"
  by (simp add: py_div_def)

lemma train_averages_eq:
  "train_averages a =
     Inr (batch_accuracy a / real (batch_idx a + 1), batch_loss a / real (batch_idx a + 1))"
  by (simp add: train_averages_def py_div_def)

lemma test_averages_eq:
  "test_averages a =
     Inr (batch_accuracy a / real (batch_idx a + 1), batch_loss a / real (batch_idx a + 1) / 2)"
  by (simp add: test_averages_def py_div_def)

lemma test_batch_eq:
  "test_batch env h i b (s, a) =
    (s\<lparr>vars := Some (vars_of env h (deepcaps s) (training s) b)\<rparr>,
     \<lparr>batch_loss = batch_loss a + item env (loss_of env h (deepcaps s) (training s) b),
      batch_accuracy = batch_accuracy a + accuracy_of env h (deepcaps s) (training s) b,
      batch_idx = i\<rparr>)"
  by (simp add: test_batch_def vars_of_def loss_of_def accuracy_of_def forward_of_def Let_def)

lemma train_batch_eq:
  "train_batch env h i b (s, a) =
    (s\<lparr>deepcaps := fst (opt_step env (deepcaps s)
                        (backward env (loss_of env h (deepcaps s) (training s) b)
                           (zero_grad env (optimizer s)))),
       optimizer := snd (opt_step env (deepcaps s)
                        (backward env (loss_of env h (deepcaps s) (training s) b)
                           (zero_grad env (optimizer s)))),
       vars := Some (vars_of env h (deepcaps s) (training s) b)\<rparr>,
     \<lparr>batch_loss = batch_loss a + item env (loss_of env h (deepcaps s) (training s) b),
      batch_accuracy = batch_accuracy a + accuracy_of env h (deepcaps s) (training s) b,
      batch_idx = i\<rparr>)"
  by (simp add: train_batch_def vars_of_def loss_of_def accuracy_of_def forward_of_def Let_def)

lemma test_loop_eq:
  "test_loop env h i bs (s, a) =
    (s\<lparr>vars := (if bs = [] then vars s
                 else Some (vars_of env h (deepcaps s) (training s) (last bs)))\<rparr>,
     \<lparr>batch_loss = batch_loss a
        + sum_list (map (\<lambda>b. item env (loss_of env h (deepcaps s) (training s) b)) bs),
      batch_accuracy = batch_accuracy a
        + sum_list (map (\<lambda>b. accuracy_of env h (deepcaps s) (training s) b) bs),
      batch_idx = (if bs = [] then batch_idx a else i + length bs - 1)\<rparr>)"
proof (induction bs arbitrary: i s a)
  case Nil
  show ?case by simp
next
  case (Cons b bs)
  show ?case
    by (simp add: test_batch_eq Cons.IH add.assoc)
qed

lemma train_loop_idx:
  "batch_idx (snd (train_loop env h i bs sa)) =
     (if bs = [] then batch_idx (snd sa) else i + length bs - 1)"
proof (induction bs arbitrary: i sa)
  case Nil
  show ?case by simp
next
  case (Cons b bs)
  obtain s a where sa: "sa = (s, a)" by (cases sa)
  show ?case
    by (simp add: Cons.IH sa train_batch_eq)
qed

lemma train_loop_frame:
  "training (fst (train_loop env h i bs sa)) = training (fst sa) \<and>
   best_accuracy (fst (train_loop env h i bs sa)) = best_accuracy (fst sa) \<and>
   training_loss_list (fst (train_loop env h i bs sa)) = training_loss_list (fst sa) \<and>
   training_acc_list (fst (train_loop env h i bs sa)) = training_acc_list (fst sa) \<and>
   testing_loss_list (fst (train_loop env h i bs sa)) = testing_loss_list (fst sa) \<and>
   testing_acc_list (fst (train_loop env h i bs sa)) = testing_acc_list (fst sa) \<and>
   trace (fst (train_loop env h i bs sa)) = trace (fst sa)"
proof (induction bs arbitrary: i sa)
  case Nil
  show ?case by simp
next
  case (Cons b bs)
  obtain s a where sa: "sa = (s, a)" by (cases sa)
  show ?case
    by (simp add: Cons.IH sa train_batch_eq)
qed

lemma train_loop_vars:
  "bs \<noteq> [] \<Longrightarrow> vars (fst (train_loop env h i bs sa)) \<noteq> None"
proof (induction bs arbitrary: i sa)
  case Nil
  then show ?case by simp
next
  case (Cons b bs)
  obtain s a where sa: "sa = (s, a)" by (cases sa)
  show ?case
  proof (cases "bs = []")
    case True
    then show ?thesis by (simp add: sa train_batch_eq)
  next
    case False
    then show ?thesis using Cons.IH by simp
  qed
qed

subsection \<open>The two halves of an epoch\<close>

lemma test_pass_eq:
  "test_pass env h e s =
    (s\<lparr>training := False,
       vars := (if test_loader env e = [] then vars s
                else Some (vars_of env h (deepcaps s) False (last (test_loader env e))))\<rparr>,
     \<lparr>batch_loss =
        sum_list (map (\<lambda>b. item env (loss_of env h (deepcaps s) False b)) (test_loader env e)),
      batch_accuracy =
        sum_list (map (\<lambda>b. accuracy_of env h (deepcaps s) False b) (test_loader env e)),
      batch_idx = (if test_loader env e = [] then 0 else length (test_loader env e) - 1)\<rparr>)"
  by (simp add: test_pass_def test_loop_eq acc0_def)

lemma train_pass_frame:
  "training (fst (train_pass env h e s)) = True \<and>
   best_accuracy (fst (train_pass env h e s)) = best_accuracy s \<and>
   training_loss_list (fst (train_pass env h e s)) = training_loss_list s \<and>
   training_acc_list (fst (train_pass env h e s)) = training_acc_list s \<and>
   testing_loss_list (fst (train_pass env h e s)) = testing_loss_list s \<and>
   testing_acc_list (fst (train_pass env h e s)) = testing_acc_list s \<and>
   trace (fst (train_pass env h e s)) =
     trace s @ [Print_epoch_began e (get_learning_rate env (optimizer s))]"
  by (simp add: train_pass_def train_loop_frame emit_def Let_def)

lemma train_pass_idx:
  "batch_idx (snd (train_pass env h e s)) =
     (if train_loader env e = [] then 0 else length (train_loader env e) - 1)"
  by (simp add: train_pass_def train_loop_idx acc0_def Let_def)

lemma train_pass_vars:
  "train_loader env e \<noteq> [] \<Longrightarrow> vars (fst (train_pass env h e s)) \<noteq> None"
  by (simp add: train_pass_def train_loop_vars Let_def)

lemma train_phase_eq:
  "train_phase env h e s =
    Inr ((emit [Print_training e
                 (batch_accuracy (snd (train_pass env h e s))
                    / real (batch_idx (snd (train_pass env h e s)) + 1))
                 (batch_loss (snd (train_pass env h e s))
                    / real (batch_idx (snd (train_pass env h e s)) + 1))]
            (fst (train_pass env h e s)))
          \<lparr>training_loss_list := training_loss_list s
             @ [batch_loss (snd (train_pass env h e s))
                  / real (batch_idx (snd (train_pass env h e s)) + 1)],
           training_acc_list := training_acc_list s
             @ [batch_accuracy (snd (train_pass env h e s))
                  / real (batch_idx (snd (train_pass env h e s)) + 1)]\<rparr>)"
  by (simp add: train_phase_def train_averages_eq train_pass_frame Let_def)

lemma test_phase_eq:
  assumes "vars (fst (test_pass env h e s)) = Some v"
    and "f1score env 7 (ind v) (labels_con v) = Inr x"
  shows "test_phase env h cp e s =
    Inr (s\<lparr>training := False, vars := Some v,
           testing_loss_list := testing_loss_list s
             @ [batch_loss (snd (test_pass env h e s))
                  / real (batch_idx (snd (test_pass env h e s)) + 1) / 2],
           testing_acc_list := testing_acc_list s
             @ [batch_accuracy (snd (test_pass env h e s))
                  / real (batch_idx (snd (test_pass env h e s)) + 1)],
           trace := trace s
             @ [Print_testing e
                  (batch_accuracy (snd (test_pass env h e s))
                     / real (batch_idx (snd (test_pass env h e s)) + 1))
                  (batch_loss (snd (test_pass env h e s))
                     / real (batch_idx (snd (test_pass env h e s)) + 1) / 2),
                F1Score_init 7,
                Print_f1 x]
             @ plots h e
                 (s\<lparr>testing_loss_list := testing_loss_list s
                      @ [batch_loss (snd (test_pass env h e s))
                           / real (batch_idx (snd (test_pass env h e s)) + 1) / 2],
                    testing_acc_list := testing_acc_list s
                      @ [batch_accuracy (snd (test_pass env h e s))
                           / real (batch_idx (snd (test_pass env h e s)) + 1)]\<rparr>) v
             @ saves cp e
                 (batch_accuracy (snd (test_pass env h e s))
                    / real (batch_idx (snd (test_pass env h e s)) + 1)) s\<rparr>)"
proof -
  have fr: "fst (test_pass env h e s) = s\<lparr>training := False, vars := Some v\<rparr>"
    using assms(1) by (simp add: test_pass_eq split: if_splits)
  show ?thesis
    unfolding test_phase_def Let_def test_averages_eq
    by (simp add: fr assms(2) emit_def plots_def saves_def split: option.splits)
qed

text \<open>The metric raises: the run ends at line 126, after the print of line
  124 and the construction of line 125.\<close>

lemma test_phase_raises:
  assumes "vars (fst (test_pass env h e s)) = Some v"
    and "f1score env 7 (ind v) (labels_con v) = Inl err"
  shows "test_phase env h cp e s =
    Inl (err,
         trace s @ [Print_testing e
                  (batch_accuracy (snd (test_pass env h e s))
                     / real (batch_idx (snd (test_pass env h e s)) + 1))
                  (batch_loss (snd (test_pass env h e s))
                     / real (batch_idx (snd (test_pass env h e s)) + 1) / 2),
                F1Score_init 7])"
proof -
  have fr: "fst (test_pass env h e s) = s\<lparr>training := False, vars := Some v\<rparr>"
    using assms(1) by (simp add: test_pass_eq split: if_splits)
  show ?thesis
    unfolding test_phase_def Let_def test_averages_eq
    by (simp add: fr assms(2) emit_def)
qed

lemma test_phase_unbound:
  assumes "vars (fst (test_pass env h e s)) = None"
  shows "test_phase env h cp e s =
    Inl (UnboundLocalError,
         trace s @ [Print_testing e
                  (batch_accuracy (snd (test_pass env h e s))
                     / real (batch_idx (snd (test_pass env h e s)) + 1))
                  (batch_loss (snd (test_pass env h e s))
                     / real (batch_idx (snd (test_pass env h e s)) + 1) / 2),
                F1Score_init 7])"
proof -
  have fr: "trace (fst (test_pass env h e s)) = trace s"
    by (simp add: test_pass_eq)
  show ?thesis
    unfolding test_phase_def Let_def test_averages_eq
    using assms by (simp add: fr emit_def)
qed

subsection \<open>The merged batch\<close>

text \<open>
  Claim C4. For a batch whose primary images, secondary images and labels
  each have batch size \<open>B\<close>, both loop bodies bind the same merged tensors:
  \<^verbatim>\<open>data_con\<close> has batch dimension \<open>2 * B\<close>, its indices below \<open>B\<close> are the
  primary input and the indices from \<open>B\<close> on are the secondary input, and
  \<^verbatim>\<open>labels_con\<close> is the labels followed by the labels again.
\<close>

theorem merged_batch:
  assumes "length (b_data b) = B" and "length (b_optic b) = B" and "length (b_labels b) = B"
  shows "\<exists>v. vars (fst (train_batch env h i b sa)) = Some v \<and>
             vars (fst (test_batch env h i b sa)) = Some v \<and>
             length (data_con v) = 2 * B \<and>
             take B (data_con v) = b_data b \<and>
             drop B (data_con v) = b_optic b \<and>
             (\<forall>k<B. data_con v ! k = b_data b ! k \<and> data_con v ! (B + k) = b_optic b ! k) \<and>
             labels_con v = b_labels b @ b_labels b \<and>
             length (labels_con v) = 2 * B \<and>
             (\<forall>k<B. labels_con v ! k = b_labels b ! k \<and> labels_con v ! (B + k) = b_labels b ! k)"
proof -
  obtain s a where sa: "sa = (s, a)" by (cases sa)
  let ?v = "vars_of env h (deepcaps s) (training s) b"
  have "vars (fst (train_batch env h i b sa)) = Some ?v"
    by (simp add: sa train_batch_eq)
  moreover have "vars (fst (test_batch env h i b sa)) = Some ?v"
    by (simp add: sa test_batch_eq)
  moreover have "data_con ?v = b_data b @ b_optic b" "labels_con ?v = b_labels b @ b_labels b"
    by (simp_all add: vars_of_def)
  ultimately show ?thesis
    using assms by (simp add: nth_append)
qed

theorem merged_batch_witness:
  "data_con (the (vars (fst (train_batch toy_env toy_hyper 0
       \<lparr>b_data = [10, 11], b_optic = [20, 21], b_labels = [0, 2]\<rparr> (toy_state, acc0)))))
     = [10, 11, 20, 21] \<and>
   labels_con (the (vars (fst (test_batch toy_env toy_hyper 0
       \<lparr>b_data = [10, 11], b_optic = [20, 21], b_labels = [0, 2]\<rparr> (toy_state, acc0)))))
     = [0, 2, 0, 2]"
proof -
  let ?b = "\<lparr>b_data = [10, 11], b_optic = [20, 21], b_labels = [0, 2 :: nat]\<rparr> :: nat batch"
  have "length (b_data ?b) = 2" "length (b_optic ?b) = 2" "length (b_labels ?b) = 2"
    by simp_all
  from merged_batch [OF this, of toy_env toy_hyper 0 "(toy_state, acc0)"]
  obtain v where v: "vars (fst (train_batch toy_env toy_hyper 0 ?b (toy_state, acc0))) = Some v"
      "vars (fst (test_batch toy_env toy_hyper 0 ?b (toy_state, acc0))) = Some v"
      "take 2 (data_con v) = [10, 11]" "drop 2 (data_con v) = [20, 21]"
      "labels_con v = [0, 2, 0, 2]"
    by auto
  have "data_con v = take 2 (data_con v) @ drop 2 (data_con v)"
    by simp
  then have "data_con v = [10, 11, 20, 21]"
    by (simp only: v) simp
  with v show ?thesis by simp
qed

subsection \<open>The concrete instance, evaluated\<close>

lemma toy_loaders [simp]:
  "train_loader toy_env e = [\<lparr>b_data = [1], b_optic = [2], b_labels = [0]\<rparr>]"
  "test_loader toy_env e = [\<lparr>b_data = [3], b_optic = [4], b_labels = [1]\<rparr>,
                            \<lparr>b_data = [5], b_optic = [6], b_labels = [2]\<rparr>]"
  by (simp_all add: toy_env_def)

lemma toy_loss_item [simp]:
  "item toy_env (loss_of toy_env h p m b) = real (length (b_data b) + length (b_optic b))"
  by (simp add: toy_env_def loss_of_def vars_of_def)

lemma toy_train_pass_loss:
  "batch_loss (snd (train_pass toy_env h e s)) = 2"
  by (simp add: train_pass_def train_batch_eq acc0_def Let_def)

lemmas toy_defs = toy_env_def toy_hyper_def toy_state_def init_state_def toy_forward_def
  toy_accuracy_def toy_f1_def

lemmas run_defs = train_def run_from_def epoch_def train_phase_def test_phase_def
  train_pass_def test_pass_def train_batch_def test_batch_def train_averages_def
  test_averages_def py_div_def emit_def plots_def saves_def acc0_def Let_def

lemma toy_train_phase0:
  "train_phase toy_env toy_hyper 0 toy_state =
   Inr \<lparr>deepcaps = 1, training = True, optimizer = 1, best_accuracy = 0,
        training_loss_list = [2], training_acc_list = [1 / 2],
        testing_loss_list = [], testing_acc_list = [],
        vars = Some \<lparr>data_con = [1, 2], labels_con = [0, 0], recon = [1, 2], ind = [0, 1]\<rparr>,
        trace = [Print_epoch_began 0 (1 / 1000), Print_training 0 (1 / 2) 2]\<rparr>"
  by (simp add: toy_defs run_defs)

lemma toy_epoch0:
  "epoch toy_env toy_hyper ''ckpt/best.pth'' 0 toy_state =
   Inr \<lparr>deepcaps = 1, training = False, optimizer = 1, best_accuracy = 0,
        training_loss_list = [2], training_acc_list = [1 / 2],
        testing_loss_list = [1], testing_acc_list = [1],
        vars = Some \<lparr>data_con = [5, 6], labels_con = [2, 2], recon = [5, 6], ind = [2, 2]\<rparr>,
        trace =
          [Print_epoch_began 0 (1 / 1000), Print_training 0 (1 / 2) 2,
           Print_testing 0 1 1, F1Score_init 7, Print_f1 7,
           Plot_loss_acc ''graphs/'' 0 [1 / 2] [2] [1] [1],
           Plot_reconstruction ''graphs/'' 0 [5, 6] [5, 6] [2, 2] [2, 2],
           Torch_save 1 ''ckpt/best.pth'', Print_saved 0]\<rparr>"
  by (simp add: toy_defs run_defs)

lemma toy_run:
  "train toy_env toy_hyper =
   \<lparr>outcome = Returned,
    log =
      [Print_model 0, Print_epoch_began 0 (1 / 1000),
       Print_training 0 (1 / 2) 2, Print_testing 0 1 1, F1Score_init 7,
       Print_f1 7, Plot_loss_acc ''graphs/'' 0 [1 / 2] [2] [1] [1],
       Plot_reconstruction ''graphs/'' 0 [5, 6] [5, 6] [2, 2] [2, 2],
       Torch_save 1 ''ckpt/best.pth'', Print_saved 0,
       Print_epoch_began 1 (1 / 1000), Print_training 1 1 2,
       Print_testing 1 (1 / 2) 1, F1Score_init 7, Print_f1 (7 / 2),
       Torch_save 2 ''ckpt/best.pth'', Print_saved 1,
       Print_epoch_began 2 (1 / 1000), Print_training 2 (1 / 2) 2,
       Print_testing 2 (1 / 2) 1, F1Score_init 7, Print_f1 (7 / 2),
       Torch_save 3 ''ckpt/best.pth'', Print_saved 2]\<rparr>"
  by (simp add: toy_defs run_defs upt_rec)

subsection \<open>What an epoch emits\<close>

lemma f1_prints_append: "f1_prints (xs @ ys) = f1_prints xs @ f1_prints ys"
  by (induction xs rule: f1_prints.induct) simp_all

lemma f1_inits_append: "f1_inits (xs @ ys) = f1_inits xs @ f1_inits ys"
  by (induction xs rule: f1_inits.induct) simp_all

lemma plots_no_f1: "f1_prints (plots h e s v) = [] \<and> f1_inits (plots h e s v) = []"
  by (simp add: plots_def split: option.splits)

lemma saves_no_f1: "f1_prints (saves cp e x s) = [] \<and> f1_inits (saves cp e x s) = []"
  by (simp add: saves_def)

lemma saves_no_plot: "filter is_plot (saves cp e x s) = []"
  by (simp add: saves_def)

lemma plots_all_plot: "filter is_plot (plots h e s v) = plots h e s v"
  by (simp add: plots_def split: option.splits)

lemma train_phase_trace:
  "\<exists>s1. train_phase env h e s = Inr s1 \<and>
        deepcaps s1 = deepcaps (fst (train_pass env h e s)) \<and>
        best_accuracy s1 = best_accuracy s \<and>
        testing_loss_list s1 = testing_loss_list s \<and>
        testing_acc_list s1 = testing_acc_list s \<and>
        vars s1 = vars (fst (train_pass env h e s)) \<and>
        trace s1 = trace s @
          [Print_epoch_began e (get_learning_rate env (optimizer s)),
           Print_training e
             (batch_accuracy (snd (train_pass env h e s))
                / real (batch_idx (snd (train_pass env h e s)) + 1))
             (batch_loss (snd (train_pass env h e s))
                / real (batch_idx (snd (train_pass env h e s)) + 1))]"
  by (simp add: train_phase_eq emit_def train_pass_frame)

text \<open>An epoch with a non-empty test loader, when the metric returns on the
  final testing batch, and when it raises there.\<close>

lemma epoch_returns:
  assumes "test_loader env e \<noteq> []"
    and "train_phase env h e s = Inr s1"
    and "f1score env 7
           (ind (vars_of env h (deepcaps s1) False (last (test_loader env e))))
           (labels_con (vars_of env h (deepcaps s1) False (last (test_loader env e)))) = Inr x"
  shows "\<exists>s2 evs.
           epoch env h cp e s = Inr s2 \<and>
           deepcaps s2 = deepcaps s1 \<and>
           best_accuracy s2 = best_accuracy s \<and>
           vars s2 = Some (vars_of env h (deepcaps s1) False (last (test_loader env e))) \<and>
           testing_acc_list s2 = testing_acc_list s
             @ [batch_accuracy (snd (test_pass env h e s1)) / real (length (test_loader env e))] \<and>
           testing_loss_list s2 = testing_loss_list s
             @ [batch_loss (snd (test_pass env h e s1)) / real (length (test_loader env e)) / 2] \<and>
           training_acc_list s2 = training_acc_list s1 \<and>
           training_loss_list s2 = training_loss_list s1 \<and>
           trace s2 = trace s @ evs \<and>
           evs =
             [Print_epoch_began e (get_learning_rate env (optimizer s)),
              Print_training e
                (batch_accuracy (snd (train_pass env h e s))
                   / real (batch_idx (snd (train_pass env h e s)) + 1))
                (batch_loss (snd (train_pass env h e s))
                   / real (batch_idx (snd (train_pass env h e s)) + 1)),
              Print_testing e
                (batch_accuracy (snd (test_pass env h e s1)) / real (length (test_loader env e)))
                (batch_loss (snd (test_pass env h e s1)) / real (length (test_loader env e)) / 2),
              F1Score_init 7,
              Print_f1 x]
             @ plots h e s2 (vars_of env h (deepcaps s1) False (last (test_loader env e)))
             @ saves cp e
                 (batch_accuracy (snd (test_pass env h e s1)) / real (length (test_loader env e)))
                 s1"
proof -
  have fr: "testing_loss_list s1 = testing_loss_list s" "testing_acc_list s1 = testing_acc_list s"
      "best_accuracy s1 = best_accuracy s"
    and tr: "trace s1 = trace s @
          [Print_epoch_began e (get_learning_rate env (optimizer s)),
           Print_training e
             (batch_accuracy (snd (train_pass env h e s))
                / real (batch_idx (snd (train_pass env h e s)) + 1))
             (batch_loss (snd (train_pass env h e s))
                / real (batch_idx (snd (train_pass env h e s)) + 1))]"
    using train_phase_trace [of env h e s] assms(2) by auto
  let ?v = "vars_of env h (deepcaps s1) False (last (test_loader env e))"
  have v: "vars (fst (test_pass env h e s1)) = Some ?v"
    using assms(1) by (simp add: test_pass_eq)
  have n: "batch_idx (snd (test_pass env h e s1)) + 1 = length (test_loader env e)"
    using assms(1) by (simp add: test_pass_eq)
  have ep: "epoch env h cp e s = test_phase env h cp e s1"
    by (simp add: epoch_def assms(2))
  show ?thesis
    unfolding ep test_phase_eq [OF v assms(3), of cp] n
    by (simp add: fr tr plots_def saves_def split: option.splits)
qed

lemma epoch_raises:
  assumes "test_loader env e \<noteq> []"
    and "train_phase env h e s = Inr s1"
    and "f1score env 7
           (ind (vars_of env h (deepcaps s1) False (last (test_loader env e))))
           (labels_con (vars_of env h (deepcaps s1) False (last (test_loader env e)))) = Inl err"
  shows "epoch env h cp e s =
           Inl (err, trace s @
             [Print_epoch_began e (get_learning_rate env (optimizer s)),
              Print_training e
                (batch_accuracy (snd (train_pass env h e s))
                   / real (batch_idx (snd (train_pass env h e s)) + 1))
                (batch_loss (snd (train_pass env h e s))
                   / real (batch_idx (snd (train_pass env h e s)) + 1)),
              Print_testing e
                (batch_accuracy (snd (test_pass env h e s1)) / real (length (test_loader env e)))
                (batch_loss (snd (test_pass env h e s1)) / real (length (test_loader env e)) / 2),
              F1Score_init 7])"
proof -
  have tr: "trace s1 = trace s @
          [Print_epoch_began e (get_learning_rate env (optimizer s)),
           Print_training e
             (batch_accuracy (snd (train_pass env h e s))
                / real (batch_idx (snd (train_pass env h e s)) + 1))
             (batch_loss (snd (train_pass env h e s))
                / real (batch_idx (snd (train_pass env h e s)) + 1))]"
    using train_phase_trace [of env h e s] assms(2) by auto
  let ?v = "vars_of env h (deepcaps s1) False (last (test_loader env e))"
  have v: "vars (fst (test_pass env h e s1)) = Some ?v"
    using assms(1) by (simp add: test_pass_eq)
  have n: "batch_idx (snd (test_pass env h e s1)) + 1 = length (test_loader env e)"
    using assms(1) by (simp add: test_pass_eq)
  have ep: "epoch env h cp e s = test_phase env h cp e s1"
    by (simp add: epoch_def assms(2))
  show ?thesis
    unfolding ep test_phase_raises [OF v assms(3), of cp] n
    by (simp add: tr)
qed

subsection \<open>The averages an epoch reports\<close>

text \<open>
  Claim C5. With non-empty loaders, the testing loss an epoch reports is the
  loss accumulated over the testing pass divided by the number of batches and
  then by 2, and the training loss it reports is the loss accumulated over the
  training pass divided by the number of batches, with no further factor.
  Both are printed; the training figure is appended to its history at once,
  the testing figure once the F1 report of line 126 has returned.
\<close>

theorem reported_average_loss:
  assumes "train_loader env e \<noteq> []" and "test_loader env e \<noteq> []"
  shows "\<exists>s1.
           train_phase env h e s = Inr s1 \<and>
           training_loss_list s1 = training_loss_list s
             @ [batch_loss (snd (train_pass env h e s)) / real (length (train_loader env e))] \<and>
           Print_training e
             (batch_accuracy (snd (train_pass env h e s)) / real (length (train_loader env e)))
             (batch_loss (snd (train_pass env h e s)) / real (length (train_loader env e)))
             \<in> set (trace s1) \<and>
           batch_loss (snd (test_pass env h e s1)) =
             sum_list (map (\<lambda>b. item env (loss_of env h (deepcaps s1) False b))
                        (test_loader env e)) \<and>
           (case test_phase env h cp e s1 of
              Inr s2 \<Rightarrow>
                testing_loss_list s2 = testing_loss_list s1
                  @ [batch_loss (snd (test_pass env h e s1))
                       / real (length (test_loader env e)) / 2] \<and>
                Print_testing e
                  (batch_accuracy (snd (test_pass env h e s1)) / real (length (test_loader env e)))
                  (batch_loss (snd (test_pass env h e s1)) / real (length (test_loader env e)) / 2)
                  \<in> set (trace s2)
            | Inl (err, tr) \<Rightarrow>
                Print_testing e
                  (batch_accuracy (snd (test_pass env h e s1)) / real (length (test_loader env e)))
                  (batch_loss (snd (test_pass env h e s1)) / real (length (test_loader env e)) / 2)
                  \<in> set tr)"
proof -
  have n1: "batch_idx (snd (train_pass env h e s)) + 1 = length (train_loader env e)"
    using assms(1) by (simp add: train_pass_idx)
  obtain s1 where s1: "train_phase env h e s = Inr s1"
    by (simp add: train_phase_eq)
  have tl: "training_loss_list s1 = training_loss_list s
      @ [batch_loss (snd (train_pass env h e s)) / real (length (train_loader env e))]"
    using s1 n1 by (auto simp add: train_phase_eq emit_def)
  have tp: "Print_training e
      (batch_accuracy (snd (train_pass env h e s)) / real (length (train_loader env e)))
      (batch_loss (snd (train_pass env h e s)) / real (length (train_loader env e)))
      \<in> set (trace s1)"
    using s1 n1 by (auto simp add: train_phase_eq emit_def)
  have sm: "batch_loss (snd (test_pass env h e s1)) =
      sum_list (map (\<lambda>b. item env (loss_of env h (deepcaps s1) False b)) (test_loader env e))"
    by (simp add: test_pass_eq)
  let ?v = "vars_of env h (deepcaps s1) False (last (test_loader env e))"
  have v: "vars (fst (test_pass env h e s1)) = Some ?v"
    using assms(2) by (simp add: test_pass_eq)
  have n2: "batch_idx (snd (test_pass env h e s1)) + 1 = length (test_loader env e)"
    using assms(2) by (simp add: test_pass_eq)
  have cs: "case test_phase env h cp e s1 of
              Inr s2 \<Rightarrow>
                testing_loss_list s2 = testing_loss_list s1
                  @ [batch_loss (snd (test_pass env h e s1))
                       / real (length (test_loader env e)) / 2] \<and>
                Print_testing e
                  (batch_accuracy (snd (test_pass env h e s1)) / real (length (test_loader env e)))
                  (batch_loss (snd (test_pass env h e s1)) / real (length (test_loader env e)) / 2)
                  \<in> set (trace s2)
            | Inl (err, tr) \<Rightarrow>
                Print_testing e
                  (batch_accuracy (snd (test_pass env h e s1)) / real (length (test_loader env e)))
                  (batch_loss (snd (test_pass env h e s1)) / real (length (test_loader env e)) / 2)
                  \<in> set tr"
  proof (cases "f1score env 7 (ind ?v) (labels_con ?v)")
    case (Inl err)
    show ?thesis
      unfolding test_phase_raises [OF v Inl, of cp] n2 by simp
  next
    case (Inr x)
    show ?thesis
      unfolding test_phase_eq [OF v Inr, of cp] n2 by simp
  qed
  show ?thesis
    by (rule exI [of _ s1]) (intro conjI s1 tl tp sm cs)
qed

theorem reported_average_loss_witness:
  "train_loader toy_env 0 \<noteq> [] \<and> test_loader toy_env 0 \<noteq> [] \<and>
   (\<exists>s1 s2. train_phase toy_env toy_hyper 0 toy_state = Inr s1 \<and>
            training_loss_list s1 = [2] \<and>
            test_phase toy_env toy_hyper ''ckpt/best.pth'' 0 s1 = Inr s2 \<and>
            testing_loss_list s2 = [1])"
proof -
  have ne: "train_loader toy_env 0 \<noteq> []" "test_loader toy_env 0 \<noteq> []"
    by simp_all
  from reported_average_loss [OF ne, of toy_hyper toy_state "''ckpt/best.pth''"]
  obtain s1 where
    s1: "train_phase toy_env toy_hyper 0 toy_state = Inr s1" and
    l1: "training_loss_list s1 = training_loss_list toy_state
          @ [batch_loss (snd (train_pass toy_env toy_hyper 0 toy_state))
               / real (length (train_loader toy_env 0))]" and
    sm: "batch_loss (snd (test_pass toy_env toy_hyper 0 s1)) =
          sum_list (map (\<lambda>b. item toy_env (loss_of toy_env toy_hyper (deepcaps s1) False b))
                     (test_loader toy_env 0))" and
    cs: "case test_phase toy_env toy_hyper ''ckpt/best.pth'' 0 s1 of
              Inr s2 \<Rightarrow>
                testing_loss_list s2 = testing_loss_list s1
                  @ [batch_loss (snd (test_pass toy_env toy_hyper 0 s1))
                       / real (length (test_loader toy_env 0)) / 2] \<and>
                Print_testing 0
                  (batch_accuracy (snd (test_pass toy_env toy_hyper 0 s1))
                     / real (length (test_loader toy_env 0)))
                  (batch_loss (snd (test_pass toy_env toy_hyper 0 s1))
                     / real (length (test_loader toy_env 0)) / 2)
                  \<in> set (trace s2)
            | Inl (err, tr) \<Rightarrow>
                Print_testing 0
                  (batch_accuracy (snd (test_pass toy_env toy_hyper 0 s1))
                     / real (length (test_loader toy_env 0)))
                  (batch_loss (snd (test_pass toy_env toy_hyper 0 s1))
                     / real (length (test_loader toy_env 0)) / 2)
                  \<in> set tr"
    by (elim exE conjE) (rule that; assumption)
  have a: "training_loss_list s1 = [2]"
    using l1 by (simp add: toy_train_pass_loss toy_state_def init_state_def)
  have b: "testing_loss_list s1 = []"
    using s1 by (auto simp add: toy_train_phase0)
  obtain s2 where s2: "test_phase toy_env toy_hyper ''ckpt/best.pth'' 0 s1 = Inr s2"
    using s1 toy_epoch0 by (simp add: epoch_def)
  have c: "testing_loss_list s2 = [1]"
    using cs unfolding s2 by (simp add: sm b)
  from ne s1 s2 a c show ?thesis by blast
qed

subsection \<open>The evaluation pass\<close>

lemma test_loop_as_train_loop:
  "test_loop env h i bs sa =
   train_loop (env\<lparr>zero_grad := (\<lambda>opt. opt), backward := (\<lambda>l opt. opt),
                    opt_step := (\<lambda>p opt. (p, opt))\<rparr>) h i bs sa"
proof (induction bs arbitrary: i sa)
  case Nil
  show ?case by simp
next
  case (Cons b bs)
  have "test_batch env h i b sa =
        train_batch (env\<lparr>zero_grad := (\<lambda>opt. opt), backward := (\<lambda>l opt. opt),
                        opt_step := (\<lambda>p opt. (p, opt))\<rparr>) h i b sa"
    by (simp add: test_batch_def train_batch_def Let_def)
  then show ?case by (simp add: Cons.IH)
qed

text \<open>
  Claim C6. A testing batch is the training batch with gradient clearing,
  backpropagation and the optimiser step left out (made no-ops), so loss and
  accuracy are accumulated the same way; and the whole evaluation pass leaves
  the parameters of the network, and the optimiser, as they were.
\<close>

theorem testing_is_training_without_update:
  "test_batch env h i b sa =
     train_batch (env\<lparr>zero_grad := (\<lambda>opt. opt), backward := (\<lambda>l opt. opt),
                     opt_step := (\<lambda>p opt. (p, opt))\<rparr>) h i b sa \<and>
   test_loop env h i bs sa =
     train_loop (env\<lparr>zero_grad := (\<lambda>opt. opt), backward := (\<lambda>l opt. opt),
                    opt_step := (\<lambda>p opt. (p, opt))\<rparr>) h i bs sa \<and>
   deepcaps (fst (test_pass env h e s)) = deepcaps s \<and>
   optimizer (fst (test_pass env h e s)) = optimizer s \<and>
   batch_loss (snd (test_pass env h e s)) =
     sum_list (map (\<lambda>b. item env (loss_of env h (deepcaps s) False b)) (test_loader env e)) \<and>
   batch_accuracy (snd (test_pass env h e s)) =
     sum_list (map (\<lambda>b. accuracy_of env h (deepcaps s) False b) (test_loader env e))"
proof -
  have "test_batch env h i b sa =
        train_batch (env\<lparr>zero_grad := (\<lambda>opt. opt), backward := (\<lambda>l opt. opt),
                        opt_step := (\<lambda>p opt. (p, opt))\<rparr>) h i b sa"
    by (simp add: test_batch_def train_batch_def Let_def)
  moreover note test_loop_as_train_loop [of env h i bs sa]
  moreover have "deepcaps (fst (test_pass env h e s)) = deepcaps s"
      "optimizer (fst (test_pass env h e s)) = optimizer s"
    by (simp_all add: test_pass_eq)
  moreover have "batch_loss (snd (test_pass env h e s)) =
      sum_list (map (\<lambda>b. item env (loss_of env h (deepcaps s) False b)) (test_loader env e))"
      "batch_accuracy (snd (test_pass env h e s)) =
      sum_list (map (\<lambda>b. accuracy_of env h (deepcaps s) False b) (test_loader env e))"
    by (simp_all add: test_pass_eq)
  ultimately show ?thesis by blast
qed

text \<open>
  Claim C8. Two runs of the testing loop over the same test data with the same
  parameters give the same accumulated, and the same averaged, testing loss
  and accuracy; in particular a second run right after the first one (which
  left the parameters unchanged) repeats its result.
\<close>

theorem evaluation_repeatable:
  assumes "deepcaps s' = deepcaps s" and "test_loader env e' = test_loader env e"
  shows "snd (test_pass env h e' s') = snd (test_pass env h e s) \<and>
         test_averages (snd (test_pass env h e' s')) = test_averages (snd (test_pass env h e s)) \<and>
         snd (test_pass env h e (fst (test_pass env h e s))) = snd (test_pass env h e s)"
  using assms by (simp add: test_pass_eq)

theorem evaluation_repeatable_witness:
  "deepcaps (fst (test_pass toy_env toy_hyper 0 toy_state)) = deepcaps toy_state \<and>
   test_loader toy_env 1 = test_loader toy_env 0 \<and>
   test_averages (snd (test_pass toy_env toy_hyper 1 (fst (test_pass toy_env toy_hyper 0 toy_state))))
     = test_averages (snd (test_pass toy_env toy_hyper 0 toy_state)) \<and>
   test_averages (snd (test_pass toy_env toy_hyper 0 toy_state)) = Inr (1 / 2, 1)"
proof -
  have a: "deepcaps (fst (test_pass toy_env toy_hyper 0 toy_state)) = deepcaps toy_state"
    by (simp add: test_pass_eq)
  have b: "test_loader toy_env 1 = test_loader toy_env 0"
    by simp
  note r = evaluation_repeatable [OF a b, of toy_hyper]
  have "test_averages (snd (test_pass toy_env toy_hyper 0 toy_state)) = Inr (1 / 2, 1)"
    by (simp add: test_averages_eq test_pass_eq toy_state_def init_state_def
          accuracy_of_def vars_of_def forward_of_def toy_env_def toy_forward_def toy_accuracy_def
          loss_of_def)
  with a b r show ?thesis by simp
qed

subsection \<open>The F1 report and the plots\<close>

text \<open>
  Claim C7. In an epoch whose test loader is not empty, the F1 report is that
  of the final testing batch alone: the metric is called on the predicted
  indices of that batch's two branches, concatenated, and on its labels
  concatenated with themselves. The one F1 score the epoch prints is the value
  of that call; if that call raises, the epoch prints no F1 score and ends
  with its error. No other batch of the epoch enters it.
\<close>

theorem f1_of_final_testing_batch:
  assumes "test_loader env e \<noteq> []"
  shows "\<exists>s1.
           train_phase env h e s = Inr s1 \<and>
           (case f1score env 7
                   (indices (forward_of env h (deepcaps s1) False (last (test_loader env e)))
                      @ indices1 (forward_of env h (deepcaps s1) False (last (test_loader env e))))
                   (b_labels (last (test_loader env e)) @ b_labels (last (test_loader env e))) of
              Inr x \<Rightarrow>
                (\<exists>s2 evs. epoch env h cp e s = Inr s2 \<and>
                          trace s2 = trace s @ evs \<and>
                          f1_prints evs = [x])
            | Inl err \<Rightarrow>
                (\<exists>evs. epoch env h cp e s = Inl (err, trace s @ evs) \<and>
                       f1_prints evs = []))"
proof -
  obtain s1 where s1: "train_phase env h e s = Inr s1"
    by (simp add: train_phase_eq)
  let ?v = "vars_of env h (deepcaps s1) False (last (test_loader env e))"
  have cs: "case f1score env 7 (ind ?v) (labels_con ?v) of
              Inr x \<Rightarrow>
                (\<exists>s2 evs. epoch env h cp e s = Inr s2 \<and>
                          trace s2 = trace s @ evs \<and>
                          f1_prints evs = [x])
            | Inl err \<Rightarrow>
                (\<exists>evs. epoch env h cp e s = Inl (err, trace s @ evs) \<and>
                       f1_prints evs = [])"
  proof (cases "f1score env 7 (ind ?v) (labels_con ?v)")
    case (Inl err)
    show ?thesis
      unfolding Inl epoch_raises [OF assms s1 Inl, of cp] by simp
  next
    case (Inr x)
    from epoch_returns [OF assms s1 Inr, of cp]
    obtain s2 evs where
      a: "epoch env h cp e s = Inr s2" "trace s2 = trace s @ evs"
      and evs: "evs =
             [Print_epoch_began e (get_learning_rate env (optimizer s)),
              Print_training e
                (batch_accuracy (snd (train_pass env h e s))
                   / real (batch_idx (snd (train_pass env h e s)) + 1))
                (batch_loss (snd (train_pass env h e s))
                   / real (batch_idx (snd (train_pass env h e s)) + 1)),
              Print_testing e
                (batch_accuracy (snd (test_pass env h e s1)) / real (length (test_loader env e)))
                (batch_loss (snd (test_pass env h e s1)) / real (length (test_loader env e)) / 2),
              F1Score_init 7,
              Print_f1 x]
             @ plots h e s2 ?v
             @ saves cp e
                 (batch_accuracy (snd (test_pass env h e s1)) / real (length (test_loader env e)))
                 s1"
      by (elim exE conjE) (rule that; assumption)
    have b: "f1_prints evs = [x]"
      unfolding evs by (simp add: f1_prints_append plots_no_f1 saves_no_f1)
    have "\<exists>s2 evs. epoch env h cp e s = Inr s2 \<and> trace s2 = trace s @ evs \<and> f1_prints evs = [x]"
      by (rule exI [of _ s2], rule exI [of _ evs]) (intro conjI a b)
    then show ?thesis
      unfolding Inr by simp
  qed
  have iv: "ind ?v = indices (forward_of env h (deepcaps s1) False (last (test_loader env e)))
                      @ indices1 (forward_of env h (deepcaps s1) False (last (test_loader env e)))"
      "labels_con ?v = b_labels (last (test_loader env e)) @ b_labels (last (test_loader env e))"
    by (simp_all add: vars_of_def)
  show ?thesis
    by (rule exI [of _ s1]) (intro conjI s1 cs [unfolded iv])
qed

theorem f1_of_final_testing_batch_witness:
  "test_loader toy_env 0 \<noteq> [] \<and>
   (\<exists>s2 evs. epoch toy_env toy_hyper ''ckpt/best.pth'' 0 toy_state = Inr s2 \<and>
             trace s2 = trace toy_state @ evs \<and>
             f1_prints evs = [7])"
proof -
  have ne: "test_loader toy_env 0 \<noteq> []" by simp
  from f1_of_final_testing_batch [OF ne, of toy_hyper toy_state "''ckpt/best.pth''"]
  obtain s1 where
    s1: "train_phase toy_env toy_hyper 0 toy_state = Inr s1" and
    cs: "case f1score toy_env 7
                   (indices (forward_of toy_env toy_hyper (deepcaps s1) False (last (test_loader toy_env 0)))
                      @ indices1 (forward_of toy_env toy_hyper (deepcaps s1) False (last (test_loader toy_env 0))))
                   (b_labels (last (test_loader toy_env 0)) @ b_labels (last (test_loader toy_env 0))) of
              Inr x \<Rightarrow>
                (\<exists>s2 evs. epoch toy_env toy_hyper ''ckpt/best.pth'' 0 toy_state = Inr s2 \<and>
                          trace s2 = trace toy_state @ evs \<and>
                          f1_prints evs = [x])
            | Inl err \<Rightarrow>
                (\<exists>evs. epoch toy_env toy_hyper ''ckpt/best.pth'' 0 toy_state
                          = Inl (err, trace toy_state @ evs) \<and>
                       f1_prints evs = [])"
    by (elim exE conjE) (rule that; assumption)
  have d: "deepcaps s1 = 1"
    using s1 by (auto simp add: toy_train_phase0)
  have f: "f1score toy_env 7
                   (indices (forward_of toy_env toy_hyper (deepcaps s1) False (last (test_loader toy_env 0)))
                      @ indices1 (forward_of toy_env toy_hyper (deepcaps s1) False (last (test_loader toy_env 0))))
                   (b_labels (last (test_loader toy_env 0)) @ b_labels (last (test_loader toy_env 0)))
           = Inr 7"
    unfolding d
    by (simp add: forward_of_def toy_env_def toy_forward_def toy_accuracy_def toy_f1_def)
  from cs have "\<exists>s2 evs. epoch toy_env toy_hyper ''ckpt/best.pth'' 0 toy_state = Inr s2 \<and>
             trace s2 = trace toy_state @ evs \<and> f1_prints evs = [7]"
    unfolding f by simp
  with ne show ?thesis by blast
qed

text \<open>
  Claim C9. In an epoch whose test loader is not empty and that gets past the
  F1 report, the plots emitted are: when a graphs folder is configured and the
  epoch index is a multiple of 5 (0 included), the loss/accuracy curves over
  the four histories as they stand at the end of the epoch, followed by the
  reconstruction plot of the final testing batch (merged images,
  reconstructions, predicted indices, merged labels); and no plot at any
  other epoch or without a graphs folder. An epoch that the F1 report ends
  emits no plot.
\<close>

theorem plots_every_fifth_epoch:
  assumes "test_loader env e \<noteq> []"
  shows "\<exists>s1.
           train_phase env h e s = Inr s1 \<and>
           (case f1score env 7
                   (indices (forward_of env h (deepcaps s1) False (last (test_loader env e)))
                      @ indices1 (forward_of env h (deepcaps s1) False (last (test_loader env e))))
                   (b_labels (last (test_loader env e)) @ b_labels (last (test_loader env e))) of
              Inr x \<Rightarrow>
                (\<exists>s2 evs.
                   epoch env h cp e s = Inr s2 \<and>
                   trace s2 = trace s @ evs \<and>
                   filter is_plot evs =
                     (case graphs_folder h of
                        None \<Rightarrow> []
                      | Some g \<Rightarrow>
                         if e mod 5 = 0
                         then [Plot_loss_acc g e (training_acc_list s2) (training_loss_list s2)
                                 (testing_acc_list s2) (testing_loss_list s2),
                               Plot_reconstruction g e
                                 (b_data (last (test_loader env e)) @ b_optic (last (test_loader env e)))
                                 (reconstructed (forward_of env h (deepcaps s1) False (last (test_loader env e)))
                                    @ reconstructed1 (forward_of env h (deepcaps s1) False (last (test_loader env e))))
                                 (indices (forward_of env h (deepcaps s1) False (last (test_loader env e)))
                                    @ indices1 (forward_of env h (deepcaps s1) False (last (test_loader env e))))
                                 (b_labels (last (test_loader env e)) @ b_labels (last (test_loader env e)))]
                         else []) \<and>
                   (filter is_plot evs \<noteq> []) = (graphs_folder h \<noteq> None \<and> e mod 5 = 0))
            | Inl err \<Rightarrow>
                (\<exists>evs. epoch env h cp e s = Inl (err, trace s @ evs) \<and>
                       filter is_plot evs = []))"
proof -
  obtain s1 where s1: "train_phase env h e s = Inr s1"
    by (simp add: train_phase_eq)
  let ?v = "vars_of env h (deepcaps s1) False (last (test_loader env e))"
  have iv: "ind ?v = indices (forward_of env h (deepcaps s1) False (last (test_loader env e)))
                      @ indices1 (forward_of env h (deepcaps s1) False (last (test_loader env e)))"
      "labels_con ?v = b_labels (last (test_loader env e)) @ b_labels (last (test_loader env e))"
    by (simp_all add: vars_of_def)
  show ?thesis
  proof (cases "f1score env 7 (ind ?v) (labels_con ?v)")
    case (Inl err)
    have "\<exists>evs. epoch env h cp e s = Inl (err, trace s @ evs) \<and> filter is_plot evs = []"
      unfolding epoch_raises [OF assms s1 Inl, of cp] by simp
    then show ?thesis
      by (intro exI [of _ s1] conjI s1) (simp add: Inl [unfolded iv])
  next
    case (Inr x)
    from epoch_returns [OF assms s1 Inr, of cp]
    obtain s2 evs where
      a: "epoch env h cp e s = Inr s2" "trace s2 = trace s @ evs"
      and evs: "evs =
             [Print_epoch_began e (get_learning_rate env (optimizer s)),
              Print_training e
                (batch_accuracy (snd (train_pass env h e s))
                   / real (batch_idx (snd (train_pass env h e s)) + 1))
                (batch_loss (snd (train_pass env h e s))
                   / real (batch_idx (snd (train_pass env h e s)) + 1)),
              Print_testing e
                (batch_accuracy (snd (test_pass env h e s1)) / real (length (test_loader env e)))
                (batch_loss (snd (test_pass env h e s1)) / real (length (test_loader env e)) / 2),
              F1Score_init 7,
              Print_f1 x]
             @ plots h e s2 ?v
             @ saves cp e
                 (batch_accuracy (snd (test_pass env h e s1)) / real (length (test_loader env e)))
                 s1"
      by (elim exE conjE) (rule that; assumption)
    have p: "filter is_plot evs = plots h e s2 ?v"
      unfolding evs by (simp add: plots_all_plot saves_no_plot)
    have c1: "filter is_plot evs =
             (case graphs_folder h of
                None \<Rightarrow> []
              | Some g \<Rightarrow>
                 if e mod 5 = 0
                 then [Plot_loss_acc g e (training_acc_list s2) (training_loss_list s2)
                         (testing_acc_list s2) (testing_loss_list s2),
                       Plot_reconstruction g e
                         (b_data (last (test_loader env e)) @ b_optic (last (test_loader env e)))
                         (reconstructed (forward_of env h (deepcaps s1) False (last (test_loader env e)))
                            @ reconstructed1 (forward_of env h (deepcaps s1) False (last (test_loader env e))))
                         (indices (forward_of env h (deepcaps s1) False (last (test_loader env e)))
                            @ indices1 (forward_of env h (deepcaps s1) False (last (test_loader env e))))
                         (b_labels (last (test_loader env e)) @ b_labels (last (test_loader env e)))]
                 else [])"
      unfolding p by (simp add: plots_def vars_of_def split: option.splits)
    have c2: "(filter is_plot evs \<noteq> []) = (graphs_folder h \<noteq> None \<and> e mod 5 = 0)"
      unfolding c1 by (simp split: option.splits)
    have "\<exists>s2 evs.
                   epoch env h cp e s = Inr s2 \<and>
                   trace s2 = trace s @ evs \<and>
                   filter is_plot evs =
                     (case graphs_folder h of
                        None \<Rightarrow> []
                      | Some g \<Rightarrow>
                         if e mod 5 = 0
                         then [Plot_loss_acc g e (training_acc_list s2) (training_loss_list s2)
                                 (testing_acc_list s2) (testing_loss_list s2),
                               Plot_reconstruction g e
                                 (b_data (last (test_loader env e)) @ b_optic (last (test_loader env e)))
                                 (reconstructed (forward_of env h (deepcaps s1) False (last (test_loader env e)))
                                    @ reconstructed1 (forward_of env h (deepcaps s1) False (last (test_loader env e))))
                                 (indices (forward_of env h (deepcaps s1) False (last (test_loader env e)))
                                    @ indices1 (forward_of env h (deepcaps s1) False (last (test_loader env e))))
                                 (b_labels (last (test_loader env e)) @ b_labels (last (test_loader env e)))]
                         else []) \<and>
                   (filter is_plot evs \<noteq> []) = (graphs_folder h \<noteq> None \<and> e mod 5 = 0)"
      by (rule exI [of _ s2], rule exI [of _ evs]) (intro conjI a c1 c2)
    then show ?thesis
      by (intro exI [of _ s1] conjI s1) (simp only: Inr [unfolded iv] sum.case)
  qed
qed

theorem plots_every_fifth_epoch_witness:
  "test_loader toy_env 0 \<noteq> [] \<and>
   (\<exists>s2 evs. epoch toy_env toy_hyper ''ckpt/best.pth'' 0 toy_state = Inr s2 \<and>
             trace s2 = trace toy_state @ evs \<and>
             filter is_plot evs =
               [Plot_loss_acc ''graphs/'' 0 [1 / 2] [2] [1] [1],
                Plot_reconstruction ''graphs/'' 0 [5, 6] [5, 6] [2, 2] [2, 2]])"
proof -
  have ne: "test_loader toy_env 0 \<noteq> []" by simp
  from plots_every_fifth_epoch [OF ne, of toy_hyper toy_state "''ckpt/best.pth''"]
  obtain s1 where
    s1: "train_phase toy_env toy_hyper 0 toy_state = Inr s1" and
    cs: "case f1score toy_env 7
                   (indices (forward_of toy_env toy_hyper (deepcaps s1) False (last (test_loader toy_env 0)))
                      @ indices1 (forward_of toy_env toy_hyper (deepcaps s1) False (last (test_loader toy_env 0))))
                   (b_labels (last (test_loader toy_env 0)) @ b_labels (last (test_loader toy_env 0))) of
              Inr x \<Rightarrow>
                (\<exists>s2 evs.
                   epoch toy_env toy_hyper ''ckpt/best.pth'' 0 toy_state = Inr s2 \<and>
                   trace s2 = trace toy_state @ evs \<and>
                   filter is_plot evs =
                     (case graphs_folder toy_hyper of
                        None \<Rightarrow> []
                      | Some g \<Rightarrow>
                         if (0::nat) mod 5 = 0
                         then [Plot_loss_acc g 0 (training_acc_list s2) (training_loss_list s2)
                                 (testing_acc_list s2) (testing_loss_list s2),
                               Plot_reconstruction g 0
                                 (b_data (last (test_loader toy_env 0)) @ b_optic (last (test_loader toy_env 0)))
                                 (reconstructed (forward_of toy_env toy_hyper (deepcaps s1) False (last (test_loader toy_env 0)))
                                    @ reconstructed1 (forward_of toy_env toy_hyper (deepcaps s1) False (last (test_loader toy_env 0))))
                                 (indices (forward_of toy_env toy_hyper (deepcaps s1) False (last (test_loader toy_env 0)))
                                    @ indices1 (forward_of toy_env toy_hyper (deepcaps s1) False (last (test_loader toy_env 0))))
                                 (b_labels (last (test_loader toy_env 0)) @ b_labels (last (test_loader toy_env 0)))]
                         else []) \<and>
                   (filter is_plot evs \<noteq> []) = (graphs_folder toy_hyper \<noteq> None \<and> (0::nat) mod 5 = 0))
            | Inl err \<Rightarrow>
                (\<exists>evs. epoch toy_env toy_hyper ''ckpt/best.pth'' 0 toy_state
                          = Inl (err, trace toy_state @ evs) \<and>
                       filter is_plot evs = [])"
    by (elim exE conjE) (rule that; assumption)
  have d: "deepcaps s1 = 1"
    using s1 by (auto simp add: toy_train_phase0)
  have f: "f1score toy_env 7
                   (indices (forward_of toy_env toy_hyper (deepcaps s1) False (last (test_loader toy_env 0)))
                      @ indices1 (forward_of toy_env toy_hyper (deepcaps s1) False (last (test_loader toy_env 0))))
                   (b_labels (last (test_loader toy_env 0)) @ b_labels (last (test_loader toy_env 0)))
           = Inr 7"
    unfolding d
    by (simp add: forward_of_def toy_env_def toy_forward_def toy_accuracy_def toy_f1_def)
  from cs [unfolded f]
  obtain s2 evs where
    s2: "epoch toy_env toy_hyper ''ckpt/best.pth'' 0 toy_state = Inr s2" and
    tr: "trace s2 = trace toy_state @ evs" and
    pl: "filter is_plot evs =
                     (case graphs_folder toy_hyper of
                        None \<Rightarrow> []
                      | Some g \<Rightarrow>
                         if (0::nat) mod 5 = 0
                         then [Plot_loss_acc g 0 (training_acc_list s2) (training_loss_list s2)
                                 (testing_acc_list s2) (testing_loss_list s2),
                               Plot_reconstruction g 0
                                 (b_data (last (test_loader toy_env 0)) @ b_optic (last (test_loader toy_env 0)))
                                 (reconstructed (forward_of toy_env toy_hyper (deepcaps s1) False (last (test_loader toy_env 0)))
                                    @ reconstructed1 (forward_of toy_env toy_hyper (deepcaps s1) False (last (test_loader toy_env 0))))
                                 (indices (forward_of toy_env toy_hyper (deepcaps s1) False (last (test_loader toy_env 0)))
                                    @ indices1 (forward_of toy_env toy_hyper (deepcaps s1) False (last (test_loader toy_env 0))))
                                 (b_labels (last (test_loader toy_env 0)) @ b_labels (last (test_loader toy_env 0)))]
                         else [])"
    unfolding sum.case by (elim exE conjE) (rule that; assumption)
  have l: "training_acc_list s2 = [1 / 2]" "training_loss_list s2 = [2]"
      "testing_acc_list s2 = [1]" "testing_loss_list s2 = [1]"
    using s2 by (auto simp add: toy_epoch0)
  have "filter is_plot evs =
               [Plot_loss_acc ''graphs/'' 0 [1 / 2] [2] [1] [1],
                Plot_reconstruction ''graphs/'' 0 [5, 6] [5, 6] [2, 2] [2, 2]]"
    unfolding pl l d
    by (simp add: toy_hyper_def forward_of_def toy_env_def toy_forward_def)
  with ne s2 tr show ?thesis by blast
qed

subsection \<open>Invariants of a whole run\<close>

text \<open>Nothing in an epoch assigns \<^verbatim>\<open>best_accuracy\<close>.\<close>

lemma test_phase_best_accuracy:
  assumes "test_phase env h cp e s = Inr s2"
  shows "best_accuracy s2 = best_accuracy s"
proof (cases "vars (fst (test_pass env h e s))")
  case None
  then show ?thesis using assms by (simp add: test_phase_unbound)
next
  case (Some v)
  show ?thesis
  proof (cases "f1score env 7 (ind v) (labels_con v)")
    case (Inl err)
    then show ?thesis using assms by (simp add: test_phase_raises [OF Some Inl])
  next
    case (Inr x)
    then show ?thesis using assms by (auto simp add: test_phase_eq [OF Some Inr])
  qed
qed

lemma epoch_best_accuracy:
  assumes "epoch env h cp e s = Inr s2"
  shows "best_accuracy s2 = best_accuracy s"
proof -
  obtain s1 where s1: "train_phase env h e s = Inr s1" "best_accuracy s1 = best_accuracy s"
    using train_phase_trace [of env h e s] by blast
  have "test_phase env h cp e s1 = Inr s2"
    using assms by (simp add: epoch_def s1)
  then have "best_accuracy s2 = best_accuracy s1"
    by (rule test_phase_best_accuracy)
  with s1 show ?thesis by simp
qed

lemma epochs_best_accuracy:
  "epochs env h cp es s = Inr s' \<Longrightarrow> best_accuracy s' = best_accuracy s"
proof (induction es arbitrary: s)
  case Nil
  then show ?case by simp
next
  case (Cons e es)
  then show ?case
    by (auto split: sum.splits dest: epoch_best_accuracy)
qed

text \<open>Every F1 metric of a trace is built for 7 classes, whether the run
  returns or ends with an error.\<close>

lemma f1_seven_append: "f1_seven xs \<Longrightarrow> f1_seven ys \<Longrightarrow> f1_seven (xs @ ys)"
  unfolding f1_seven_def f1_inits_append
  by (metis length_append replicate_add)

lemma test_phase_f1_seven:
  assumes "f1_seven (trace s)"
  shows "case test_phase env h cp e s of
           Inr s2 \<Rightarrow> f1_seven (trace s2)
         | Inl (err, tr) \<Rightarrow> f1_seven tr"
proof (cases "vars (fst (test_pass env h e s))")
  case None
  show ?thesis
    unfolding test_phase_unbound [OF None]
    by (simp, rule f1_seven_append [OF assms]) (simp add: f1_seven_def)
next
  case (Some v)
  show ?thesis
  proof (cases "f1score env 7 (ind v) (labels_con v)")
    case (Inl err)
    show ?thesis
      unfolding test_phase_raises [OF Some Inl]
      by (simp, rule f1_seven_append [OF assms]) (simp add: f1_seven_def)
  next
    case (Inr x)
    show ?thesis
      unfolding test_phase_eq [OF Some Inr]
      by (simp, rule f1_seven_append [OF assms])
         (simp add: f1_seven_def f1_inits_append plots_no_f1 saves_no_f1)
  qed
qed

lemma epoch_f1_seven:
  assumes "f1_seven (trace s)"
  shows "case epoch env h cp e s of
           Inr s2 \<Rightarrow> f1_seven (trace s2)
         | Inl (err, tr) \<Rightarrow> f1_seven tr"
proof -
  obtain s1 where s1: "train_phase env h e s = Inr s1" and
    tr1: "trace s1 = trace s @
          [Print_epoch_began e (get_learning_rate env (optimizer s)),
           Print_training e
             (batch_accuracy (snd (train_pass env h e s))
                / real (batch_idx (snd (train_pass env h e s)) + 1))
             (batch_loss (snd (train_pass env h e s))
                / real (batch_idx (snd (train_pass env h e s)) + 1))]"
    using train_phase_trace [of env h e s] by blast
  have ep: "epoch env h cp e s = test_phase env h cp e s1"
    by (simp add: epoch_def s1)
  have f1: "f1_seven (trace s1)"
    unfolding tr1 by (rule f1_seven_append [OF assms]) (simp add: f1_seven_def)
  show ?thesis
    unfolding ep by (rule test_phase_f1_seven [OF f1])
qed

lemma epochs_f1_seven:
  assumes "f1_seven (trace s)"
  shows "case epochs env h cp es s of
           Inr s2 \<Rightarrow> f1_seven (trace s2)
         | Inl (err, tr) \<Rightarrow> f1_seven tr"
  using assms
proof (induction es arbitrary: s)
  case Nil
  then show ?case by simp
next
  case (Cons e es)
  show ?case
  proof (cases "epoch env h cp e s")
    case (Inl x)
    then show ?thesis
      using epoch_f1_seven [OF Cons.prems, of env h cp e] by simp
  next
    case (Inr s2)
    then have "f1_seven (trace s2)"
      using epoch_f1_seven [OF Cons.prems, of env h cp e] by simp
    from Cons.IH [OF this] show ?thesis
      by (simp add: Inr)
  qed
qed

lemma run_from_f1_seven:
  assumes "f1_seven tr"
  shows "f1_seven (log (run_from env h cp p tr))"
proof -
  have "f1_seven (trace (init_state env h p tr))"
    using assms by (simp add: init_state_def)
  from epochs_f1_seven [OF this, of env h cp "[0..<num_epochs h]"]
  show ?thesis
    by (auto simp add: run_from_def split: sum.splits)
qed

lemma train_f1_seven: "f1_seven (log (train env h))"
proof (cases "checkpoint_folder h")
  case None
  then show ?thesis by (simp add: train_def f1_seven_def)
next
  case folder: (Some folder)
  show ?thesis
  proof (cases "checkpoint_name h")
    case None
    then show ?thesis by (simp add: train_def folder f1_seven_def)
  next
    case name: (Some name)
    let ?p = "init_model env (num_classes h) (img_size h)"
    have a: "f1_seven [Print_model ?p]" "f1_seven ([Print_model ?p] @ [Print_checkpoint_loaded])"
        "f1_seven ([Print_model ?p] @ [Print_exception ex])" for ex
      by (simp_all add: f1_seven_def)
    show ?thesis
    proof (cases "load_checkpoint h \<and> path_exists env (folder @ name)")
      case False
      then have "train env h = run_from env h (folder @ name) ?p [Print_model ?p]"
        by (auto simp add: train_def folder name Let_def)
      then show ?thesis
        using run_from_f1_seven [OF a(1), of env h "folder @ name" ?p] by simp
    next
      case True
      show ?thesis
      proof (cases "load_state_dict env (folder @ name) ?p")
        case (Inl ex)
        then have "train env h =
            \<lparr>outcome = SystemExit None, log = [Print_model ?p] @ [Print_exception ex]\<rparr>"
          using True by (simp add: train_def folder name Let_def)
        then show ?thesis using a(3) [of ex] by simp
      next
        case (Inr p')
        then have "train env h =
            run_from env h (folder @ name) p' ([Print_model ?p] @ [Print_checkpoint_loaded])"
          using True by (simp add: train_def folder name Let_def)
        then show ?thesis
          using run_from_f1_seven [OF a(2), of env h "folder @ name" p'] by simp
      qed
    qed
  qed
qed

subsection \<open>The class count of the F1 metric\<close>

lemma wide_train_phase0:
  "train_phase wide_env wide_hyper 0 toy_state =
   Inr \<lparr>deepcaps = 1, training = True, optimizer = 1, best_accuracy = 0,
        training_loss_list = [2], training_acc_list = [1 / 2],
        testing_loss_list = [], testing_acc_list = [],
        vars = Some \<lparr>data_con = [1, 2], labels_con = [0, 0], recon = [1, 2], ind = [0, 1]\<rparr>,
        trace = [Print_epoch_began 0 (1 / 1000), Print_training 0 (1 / 2) 2]\<rparr>"
  by (simp add: wide_env_def wide_hyper_def toy_defs run_defs)

lemma wide_run:
  "train wide_env wide_hyper =
   \<lparr>outcome = Raised ValueError,
    log = [Print_model 0, Print_epoch_began 0 (1 / 1000), Print_training 0 (1 / 2) 2,
           Print_testing 0 1 1, F1Score_init 7]\<rparr>"
  by (simp add: wide_env_def wide_hyper_def toy_defs run_defs)

text \<open>
  Claim C10. Whatever \<^verbatim>\<open>num_classes\<close> is passed to \<^verbatim>\<open>train\<close>, every F1
  metric of the run is constructed for 7 classes; and in an epoch (with a
  non-empty test loader) line 126 has the outcome of the 7-class metric on the
  locals \<^verbatim>\<open>ind\<close> and \<^verbatim>\<open>labels_con\<close>, not that of a metric for
  \<^verbatim>\<open>num_classes\<close> classes: the epoch prints the 7-class value when that call
  returns, and ends with its error, printing no F1, when it raises.
\<close>

theorem f1_class_count_is_seven:
  "f1_inits (log (train env (h\<lparr>num_classes := n\<rparr>)))
     = replicate (length (f1_inits (log (train env (h\<lparr>num_classes := n\<rparr>))))) 7 \<and>
   (test_loader env e \<noteq> [] \<longrightarrow>
     (\<exists>s1. train_phase env (h\<lparr>num_classes := n\<rparr>) e s = Inr s1 \<and>
        (case f1score env 7
                (ind (vars_of env (h\<lparr>num_classes := n\<rparr>) (deepcaps s1) False
                        (last (test_loader env e))))
                (labels_con (vars_of env (h\<lparr>num_classes := n\<rparr>) (deepcaps s1) False
                        (last (test_loader env e)))) of
           Inr x \<Rightarrow>
             (\<exists>s2 evs. epoch env (h\<lparr>num_classes := n\<rparr>) cp e s = Inr s2 \<and>
                       trace s2 = trace s @ evs \<and>
                       vars s2 = Some (vars_of env (h\<lparr>num_classes := n\<rparr>) (deepcaps s1) False
                                         (last (test_loader env e))) \<and>
                       f1_inits evs = [7] \<and>
                       f1_prints evs = [x])
         | Inl err \<Rightarrow>
             (\<exists>evs. epoch env (h\<lparr>num_classes := n\<rparr>) cp e s = Inl (err, trace s @ evs) \<and>
                    f1_inits evs = [7] \<and>
                    f1_prints evs = []))))"
proof (intro conjI impI)
  show "f1_inits (log (train env (h\<lparr>num_classes := n\<rparr>)))
     = replicate (length (f1_inits (log (train env (h\<lparr>num_classes := n\<rparr>))))) 7"
    using train_f1_seven [of env "h\<lparr>num_classes := n\<rparr>"] by (simp add: f1_seven_def)
next
  let ?h = "h\<lparr>num_classes := n\<rparr>"
  assume ne: "test_loader env e \<noteq> []"
  obtain s1 where s1: "train_phase env ?h e s = Inr s1"
    by (simp add: train_phase_eq)
  let ?v = "vars_of env ?h (deepcaps s1) False (last (test_loader env e))"
  have cs: "case f1score env 7 (ind ?v) (labels_con ?v) of
           Inr x \<Rightarrow>
             (\<exists>s2 evs. epoch env ?h cp e s = Inr s2 \<and>
                       trace s2 = trace s @ evs \<and>
                       vars s2 = Some ?v \<and>
                       f1_inits evs = [7] \<and>
                       f1_prints evs = [x])
         | Inl err \<Rightarrow>
             (\<exists>evs. epoch env ?h cp e s = Inl (err, trace s @ evs) \<and>
                    f1_inits evs = [7] \<and>
                    f1_prints evs = [])"
  proof (cases "f1score env 7 (ind ?v) (labels_con ?v)")
    case (Inl err)
    show ?thesis
      unfolding Inl epoch_raises [OF ne s1 Inl, of cp] by simp
  next
    case (Inr x)
    from epoch_returns [OF ne s1 Inr, of cp]
    obtain s2 evs where
      a: "epoch env ?h cp e s = Inr s2" "trace s2 = trace s @ evs" "vars s2 = Some ?v"
      and evs: "evs =
             [Print_epoch_began e (get_learning_rate env (optimizer s)),
              Print_training e
                (batch_accuracy (snd (train_pass env ?h e s))
                   / real (batch_idx (snd (train_pass env ?h e s)) + 1))
                (batch_loss (snd (train_pass env ?h e s))
                   / real (batch_idx (snd (train_pass env ?h e s)) + 1)),
              Print_testing e
                (batch_accuracy (snd (test_pass env ?h e s1)) / real (length (test_loader env e)))
                (batch_loss (snd (test_pass env ?h e s1)) / real (length (test_loader env e)) / 2),
              F1Score_init 7,
              Print_f1 x]
             @ plots ?h e s2 ?v
             @ saves cp e
                 (batch_accuracy (snd (test_pass env ?h e s1)) / real (length (test_loader env e)))
                 s1"
      by (elim exE conjE) (rule that; assumption)
    have b: "f1_inits evs = [7]" "f1_prints evs = [x]"
      unfolding evs
      by (simp_all add: f1_inits_append f1_prints_append plots_no_f1 saves_no_f1)
    have "\<exists>s2 evs. epoch env ?h cp e s = Inr s2 \<and>
                       trace s2 = trace s @ evs \<and>
                       vars s2 = Some ?v \<and>
                       f1_inits evs = [7] \<and>
                       f1_prints evs = [x]"
      by (rule exI [of _ s2], rule exI [of _ evs]) (intro conjI a b)
    then show ?thesis
      unfolding Inr by simp
  qed
  show "\<exists>s1. train_phase env ?h e s = Inr s1 \<and>
        (case f1score env 7
                (ind (vars_of env ?h (deepcaps s1) False (last (test_loader env e))))
                (labels_con (vars_of env ?h (deepcaps s1) False (last (test_loader env e)))) of
           Inr x \<Rightarrow>
             (\<exists>s2 evs. epoch env ?h cp e s = Inr s2 \<and>
                       trace s2 = trace s @ evs \<and>
                       vars s2 = Some (vars_of env ?h (deepcaps s1) False
                                         (last (test_loader env e))) \<and>
                       f1_inits evs = [7] \<and>
                       f1_prints evs = [x])
         | Inl err \<Rightarrow>
             (\<exists>evs. epoch env ?h cp e s = Inl (err, trace s @ evs) \<and>
                    f1_inits evs = [7] \<and>
                    f1_prints evs = []))"
    by (rule exI [of _ s1]) (intro conjI s1 cs)
qed

text \<open>Two runs: one with \<^verbatim>\<open>num_classes = 3\<close>, where the 7-class metric
  returns and its value is printed; one with \<^verbatim>\<open>num_classes = 10\<close> and a
  label 8 in the final testing batch, where the 7-class metric raises and ends
  the run, while a metric for the configured 10 classes accepts the same
  arguments.\<close>

theorem f1_class_count_is_seven_witness:
  "num_classes toy_hyper = 3 \<and>
   f1_inits (log (train toy_env toy_hyper)) = [7, 7, 7] \<and>
   f1_prints (log (train toy_env toy_hyper)) = [7, 7 / 2, 7 / 2] \<and>
   num_classes wide_hyper = 10 \<and>
   test_loader wide_env 0 \<noteq> [] \<and>
   f1score wide_env 10 [8, 8] [8, 8] = Inr 10 \<and>
   f1score wide_env 7 [8, 8] [8, 8] = Inl ValueError \<and>
   (\<exists>evs. epoch wide_env wide_hyper ''ckpt/best.pth'' 0 toy_state
            = Inl (ValueError, trace toy_state @ evs) \<and>
          f1_inits evs = [7] \<and> f1_prints evs = []) \<and>
   outcome (train wide_env wide_hyper) = Raised ValueError"
proof -
  have h: "toy_hyper\<lparr>num_classes := 3\<rparr> = toy_hyper"
    by (simp add: toy_hyper_def)
  have w: "wide_hyper\<lparr>num_classes := 10\<rparr> = wide_hyper"
    by (simp add: wide_hyper_def)
  have ne: "test_loader wide_env 0 \<noteq> []"
    by (simp add: wide_env_def)
  note th = f1_class_count_is_seven
    [where env = toy_env and h = toy_hyper and n = 3 and e = 0
       and cp = "''ckpt/best.pth''" and s = toy_state, unfolded h]
  from th have "f1_inits (log (train toy_env toy_hyper))
      = replicate (length (f1_inits (log (train toy_env toy_hyper)))) 7"
    by (rule conjunct1)
  then have a: "f1_inits (log (train toy_env toy_hyper)) = [7, 7, 7]"
    by (simp add: toy_run)
  note tw = f1_class_count_is_seven
    [where env = wide_env and h = wide_hyper and n = 10 and e = 0
       and cp = "''ckpt/best.pth''" and s = toy_state, unfolded w]
  from tw ne
  have "\<exists>s1. train_phase wide_env wide_hyper 0 toy_state = Inr s1 \<and>
        (case f1score wide_env 7
                (ind (vars_of wide_env wide_hyper (deepcaps s1) False
                        (last (test_loader wide_env 0))))
                (labels_con (vars_of wide_env wide_hyper (deepcaps s1) False
                        (last (test_loader wide_env 0)))) of
           Inr x \<Rightarrow>
             (\<exists>s2 evs. epoch wide_env wide_hyper ''ckpt/best.pth'' 0 toy_state = Inr s2 \<and>
                       trace s2 = trace toy_state @ evs \<and>
                       vars s2 = Some (vars_of wide_env wide_hyper (deepcaps s1) False
                                         (last (test_loader wide_env 0))) \<and>
                       f1_inits evs = [7] \<and>
                       f1_prints evs = [x])
         | Inl err \<Rightarrow>
             (\<exists>evs. epoch wide_env wide_hyper ''ckpt/best.pth'' 0 toy_state
                      = Inl (err, trace toy_state @ evs) \<and>
                    f1_inits evs = [7] \<and>
                    f1_prints evs = []))"
    by (elim conjE impE) assumption
  then obtain s1 where
    s1: "train_phase wide_env wide_hyper 0 toy_state = Inr s1" and
    cs: "case f1score wide_env 7
                (ind (vars_of wide_env wide_hyper (deepcaps s1) False
                        (last (test_loader wide_env 0))))
                (labels_con (vars_of wide_env wide_hyper (deepcaps s1) False
                        (last (test_loader wide_env 0)))) of
           Inr x \<Rightarrow>
             (\<exists>s2 evs. epoch wide_env wide_hyper ''ckpt/best.pth'' 0 toy_state = Inr s2 \<and>
                       trace s2 = trace toy_state @ evs \<and>
                       vars s2 = Some (vars_of wide_env wide_hyper (deepcaps s1) False
                                         (last (test_loader wide_env 0))) \<and>
                       f1_inits evs = [7] \<and>
                       f1_prints evs = [x])
         | Inl err \<Rightarrow>
             (\<exists>evs. epoch wide_env wide_hyper ''ckpt/best.pth'' 0 toy_state
                      = Inl (err, trace toy_state @ evs) \<and>
                    f1_inits evs = [7] \<and>
                    f1_prints evs = [])"
    by (elim exE conjE) (rule that; assumption)
  have d: "deepcaps s1 = 1"
    using s1 by (auto simp add: wide_train_phase0)
  have f: "f1score wide_env 7
                (ind (vars_of wide_env wide_hyper (deepcaps s1) False
                        (last (test_loader wide_env 0))))
                (labels_con (vars_of wide_env wide_hyper (deepcaps s1) False
                        (last (test_loader wide_env 0)))) = Inl ValueError"
    unfolding d
    by (simp add: vars_of_def forward_of_def wide_env_def toy_env_def toy_forward_def toy_f1_def)
  from cs have b: "\<exists>evs. epoch wide_env wide_hyper ''ckpt/best.pth'' 0 toy_state
                      = Inl (ValueError, trace toy_state @ evs) \<and>
                    f1_inits evs = [7] \<and> f1_prints evs = []"
    unfolding f by simp
  have c: "num_classes toy_hyper = 3" "num_classes wide_hyper = 10"
    by (simp_all add: toy_hyper_def wide_hyper_def)
  have g: "f1_prints (log (train toy_env toy_hyper)) = [7, 7 / 2, 7 / 2]"
    by (simp add: toy_run)
  have k: "f1score wide_env 10 [8, 8] [8, 8] = Inr 10"
      "f1score wide_env 7 [8, 8] [8, 8] = Inl ValueError"
    by (simp_all add: wide_env_def toy_env_def toy_f1_def toy_accuracy_def)
  have r: "outcome (train wide_env wide_hyper) = Raised ValueError"
    by (simp add: wide_run)
  from a b c g k r ne show ?thesis by blast
qed

subsection \<open>The checkpoint\<close>

lemma plots_no_save: "filter is_save (plots h e s v) = []"
  by (simp add: plots_def split: option.splits)

text \<open>\<^verbatim>\<open>best_accuracy\<close> is 0 when the epoch loop starts and nothing assigns it,
  so an epoch saves exactly when its testing accuracy is above the value the
  loop started with, whatever earlier epochs reached.\<close>

lemma epoch_saves:
  assumes "test_loader env e \<noteq> []"
    and "train_phase env h e s = Inr s1"
    and "f1score env 7
           (ind (vars_of env h (deepcaps s1) False (last (test_loader env e))))
           (labels_con (vars_of env h (deepcaps s1) False (last (test_loader env e)))) = Inr x"
  shows "\<exists>s2 evs.
           epoch env h cp e s = Inr s2 \<and>
           trace s2 = trace s @ evs \<and>
           best_accuracy s2 = best_accuracy s \<and>
           filter is_save evs =
             (if best_accuracy s
                   < batch_accuracy (snd (test_pass env h e s1)) / real (length (test_loader env e))
              then [Torch_save (deepcaps s1) cp] else [])"
proof -
  let ?v = "vars_of env h (deepcaps s1) False (last (test_loader env e))"
  from epoch_returns [OF assms, of cp]
  obtain s2 evs where
    a: "epoch env h cp e s = Inr s2" "trace s2 = trace s @ evs"
       "best_accuracy s2 = best_accuracy s"
    and evs: "evs =
             [Print_epoch_began e (get_learning_rate env (optimizer s)),
              Print_training e
                (batch_accuracy (snd (train_pass env h e s))
                   / real (batch_idx (snd (train_pass env h e s)) + 1))
                (batch_loss (snd (train_pass env h e s))
                   / real (batch_idx (snd (train_pass env h e s)) + 1)),
              Print_testing e
                (batch_accuracy (snd (test_pass env h e s1)) / real (length (test_loader env e)))
                (batch_loss (snd (test_pass env h e s1)) / real (length (test_loader env e)) / 2),
              F1Score_init 7,
              Print_f1 x]
             @ plots h e s2 ?v
             @ saves cp e
                 (batch_accuracy (snd (test_pass env h e s1)) / real (length (test_loader env e)))
                 s1"
    by (elim exE conjE) (rule that; assumption)
  have b1: "best_accuracy s1 = best_accuracy s"
    using assms(2) train_phase_trace [of env h e s] by auto
  have c: "filter is_save evs =
             (if best_accuracy s
                   < batch_accuracy (snd (test_pass env h e s1)) / real (length (test_loader env e))
              then [Torch_save (deepcaps s1) cp] else [])"
    unfolding evs by (simp add: plots_no_save saves_def b1)
  show ?thesis
    by (rule exI [of _ s2], rule exI [of _ evs]) (intro conjI a c)
qed

text \<open>
  Claim C1, on the code: a run of three epochs whose testing accuracies are
  1, 1/2 and 1/2. The claim has the checkpoint written once, after the first
  epoch, and holding its parameters (state 1) from then on. The code writes
  it after every epoch, the tie of the third with the second included, and
  the file ends with the parameters of the last epoch (state 3).
\<close>

theorem checkpoint_after_worse_epochs:
  "testing_accuracies (log (train toy_env toy_hyper)) = [1, 1 / 2, 1 / 2] \<and>
   filter is_save (log (train toy_env toy_hyper)) =
     [Torch_save 1 ''ckpt/best.pth'', Torch_save 2 ''ckpt/best.pth'',
      Torch_save 3 ''ckpt/best.pth''] \<and>
   persisted ''ckpt/best.pth'' (log (train toy_env toy_hyper)) = Some 3"
  by (simp add: toy_run)

subsection \<open>An empty loader\<close>

lemma no_train_run:
  "train no_train_env one_epoch =
   \<lparr>outcome = Returned,
    log =
      [Print_model 0, Print_epoch_began 0 (1 / 1000), Print_training 0 0 0,
       Print_testing 0 (1 / 2) 1, F1Score_init 7, Print_f1 (7 / 2),
       Plot_loss_acc ''graphs/'' 0 [0] [0] [1 / 2] [1],
       Plot_reconstruction ''graphs/'' 0 [5, 6] [5, 6] [2, 3] [2, 2],
       Torch_save 0 ''ckpt/best.pth'', Print_saved 0]\<rparr>"
  by (simp add: no_train_env_def one_epoch_def toy_defs run_defs)

lemma no_test_run:
  "train no_test_env one_epoch =
   \<lparr>outcome = Returned,
    log =
      [Print_model 0, Print_epoch_began 0 (1 / 1000),
       Print_training 0 (1 / 2) 2, Print_testing 0 0 0, F1Score_init 7,
       Print_f1 (7 / 2), Plot_loss_acc ''graphs/'' 0 [1 / 2] [2] [0] [0],
       Plot_reconstruction ''graphs/'' 0 [1, 2] [1, 2] [0, 1] [0, 0]]\<rparr>"
  by (simp add: no_test_env_def one_epoch_def toy_defs run_defs)

text \<open>
  Claim C2 fails on the code: with a training loader that yields no batch the
  run ends normally and reports training accuracy 0 and loss 0, and so does a
  run with an empty test loader for the testing figures; nothing divides by
  zero.
\<close>

theorem empty_loader_run_returns:
  "train_loader no_train_env 0 = [] \<and>
   outcome (train no_train_env one_epoch) = Returned \<and>
   Print_training 0 0 0 \<in> set (log (train no_train_env one_epoch)) \<and>
   test_loader no_test_env 0 = [] \<and>
   outcome (train no_test_env one_epoch) = Returned \<and>
   Print_testing 0 0 0 \<in> set (log (train no_test_env one_epoch))"
  by (simp add: no_train_run no_test_run) (simp add: no_train_env_def no_test_env_def)

text \<open>
  Claim C2, amended. If a data loader yields zero batches, epoch finalization
  does not divide by zero: \<^verbatim>\<open>batch_idx\<close> keeps the 0 it was given before the
  loop, the divisor \<^verbatim>\<open>batch_idx + 1\<close> is 1, and the average accuracy and
  loss of that pass are 0.
\<close>

theorem empty_loader_averages_zero:
  "(train_loader env e = [] \<longrightarrow>
      batch_idx (snd (train_pass env h e s)) + 1 = 1 \<and>
      train_averages (snd (train_pass env h e s)) = Inr (0, 0)) \<and>
   (test_loader env e = [] \<longrightarrow>
      batch_idx (snd (test_pass env h e s)) + 1 = 1 \<and>
      test_averages (snd (test_pass env h e s)) = Inr (0, 0))"
proof (intro conjI impI)
  assume "train_loader env e = []"
  then show "batch_idx (snd (train_pass env h e s)) + 1 = 1"
      "train_averages (snd (train_pass env h e s)) = Inr (0, 0)"
    by (simp_all add: train_pass_def train_averages_eq acc0_def Let_def)
next
  assume "test_loader env e = []"
  then show "batch_idx (snd (test_pass env h e s)) + 1 = 1"
      "test_averages (snd (test_pass env h e s)) = Inr (0, 0)"
    by (simp_all add: test_pass_eq test_averages_eq)
qed

theorem empty_loader_averages_zero_witness:
  "train_loader no_train_env 0 = [] \<and>
   train_averages (snd (train_pass no_train_env one_epoch 0 toy_state)) = Inr (0, 0) \<and>
   test_loader no_test_env 0 = [] \<and>
   test_averages (snd (test_pass no_test_env one_epoch 0 toy_state)) = Inr (0, 0)"
proof -
  have a: "train_loader no_train_env 0 = []" "test_loader no_test_env 0 = []"
    by (simp_all add: no_train_env_def no_test_env_def)
  from empty_loader_averages_zero
    [where env = no_train_env and e = 0 and h = one_epoch and s = toy_state] a(1)
  have b: "train_averages (snd (train_pass no_train_env one_epoch 0 toy_state)) = Inr (0, 0)"
    by blast
  from empty_loader_averages_zero
    [where env = no_test_env and e = 0 and h = one_epoch and s = toy_state] a(2)
  have c: "test_averages (snd (test_pass no_test_env one_epoch 0 toy_state)) = Inr (0, 0)"
    by blast
  from a b c show ?thesis by blast
qed

subsection \<open>A checkpoint that does not load\<close>

text \<open>
  Claim C3 fails on the code in its exit status: \<^verbatim>\<open>sys.exit()\<close> is called
  with no argument, so a run whose checkpoint does not load ends with exit
  status 0.
\<close>

theorem load_failure_exits_with_zero:
  "load_checkpoint load_hyper \<and>
   path_exists toy_env ''ckpt/best.pth'' \<and>
   load_state_dict toy_env ''ckpt/best.pth'' 0 = Inl ''size mismatch'' \<and>
   outcome (train toy_env load_hyper) = SystemExit None \<and>
   exit_status (outcome (train toy_env load_hyper)) = 0"
  by (simp add: load_hyper_def toy_env_def toy_hyper_def train_def Let_def)

text \<open>
  Claim C3, amended. When \<^verbatim>\<open>load_checkpoint\<close> is set, the checkpoint file is
  present and restoring the parameters from it raises an exception, the
  exception is printed and the process terminates at once through
  \<^verbatim>\<open>sys.exit()\<close> with no argument (exit status 0); nothing of the training
  runs: the trace is the print of the model and the print of the exception.
\<close>

theorem load_failure_exits:
  assumes "load_checkpoint h"
    and "checkpoint_folder h = Some folder"
    and "checkpoint_name h = Some name"
    and "path_exists env (folder @ name)"
    and "load_state_dict env (folder @ name) (init_model env (num_classes h) (img_size h)) = Inl ex"
  shows "train env h =
           \<lparr>outcome = SystemExit None,
            log = [Print_model (init_model env (num_classes h) (img_size h)),
                   Print_exception ex]\<rparr> \<and>
         exit_status (outcome (train env h)) = 0"
  using assms by (simp add: train_def Let_def)

theorem load_failure_exits_witness:
  "load_checkpoint load_hyper \<and>
   checkpoint_folder load_hyper = Some ''ckpt/'' \<and>
   checkpoint_name load_hyper = Some ''best.pth'' \<and>
   path_exists toy_env (''ckpt/'' @ ''best.pth'') \<and>
   train toy_env load_hyper =
     \<lparr>outcome = SystemExit None, log = [Print_model 0, Print_exception ''size mismatch'']\<rparr>"
proof -
  have a: "load_checkpoint load_hyper" "checkpoint_folder load_hyper = Some ''ckpt/''"
      "checkpoint_name load_hyper = Some ''best.pth''"
      "path_exists toy_env (''ckpt/'' @ ''best.pth'')"
      "load_state_dict toy_env (''ckpt/'' @ ''best.pth'')
         (init_model toy_env (num_classes load_hyper) (img_size load_hyper)) = Inl ''size mismatch''"
    by (simp_all add: load_hyper_def toy_hyper_def toy_env_def)
  have i: "init_model toy_env (num_classes load_hyper) (img_size load_hyper) = 0"
    by (simp add: toy_env_def)
  from load_failure_exits [OF a]
  have "train toy_env load_hyper =
     \<lparr>outcome = SystemExit None, log = [Print_model 0, Print_exception ''size mismatch'']\<rparr>"
    unfolding i by (rule conjunct1)
  with a show ?thesis by blast
qed

end
